theory Spec2Isabelle
  imports Main
begin

text \<open>
  A model of the notes service's server side: the in-memory storage and the selection
  between the two storage backends (storage.ts), the request schemas (shared/schema.ts),
  the authentication middleware (middleware/auth.ts) and the route handlers (routes.ts),
  followed by the properties proved of them.
\<close>

section \<open>Shared schema (shared/schema.ts)\<close>

text \<open>
  The zod schemas give the shapes of the three persisted entities. The two timestamps,
  declared \<^verbatim>\<open>.optional()\<close>, are an \<open>option\<close>; a \<^verbatim>\<open>Date\<close> is its time value in
  milliseconds; the two string enums are datatypes. \<^verbatim>\<open>_id\<close> is optional in the schema
  too, absent only until a storage assigns it: every entity a storage holds or returns
  has one, and the routes read it as \<^verbatim>\<open>_id!\<close>, so the records carry it.
\<close>

datatype plan = Free | Pro

datatype role = Admin | Member

type_synonym date = int

record Tenant =
  tenant_id :: string
  tenant_name :: string
  tenant_slug :: string
  tenant_plan :: plan
  tenant_createdAt :: "date option"
  tenant_updatedAt :: "date option"

record User =
  user_id :: string
  user_email :: string
  user_passwordHash :: string
  user_role :: role
  user_tenantId :: string
  user_createdAt :: "date option"
  user_updatedAt :: "date option"

record Note =
  note_id :: string
  note_title :: string
  note_body :: string
  note_tenantId :: string
  note_authorId :: string
  note_createdAt :: "date option"
  note_updatedAt :: "date option"

text \<open>\<^verbatim>\<open>InsertTenant\<close>, the argument of \<^verbatim>\<open>createUser\<close>, \<^verbatim>\<open>InsertNote & {tenantId, authorId}\<close>
  and \<^verbatim>\<open>UpdateNote\<close> (every key of the insert schema optional).\<close>

record InsertTenant =
  it_name :: string
  it_slug :: string
  it_plan :: plan

record InsertUser =
  iu_email :: string
  iu_passwordHash :: string
  iu_role :: role
  iu_tenantId :: string

record InsertNote =
  in_title :: string
  in_body :: string
  in_tenantId :: string
  in_authorId :: string

record UpdateNote =
  un_title :: "string option"
  un_body :: "string option"

section \<open>The JavaScript Map\<close>

text \<open>
  A \<^verbatim>\<open>Map<string, V>\<close> keeps its entries in insertion order: \<^verbatim>\<open>set\<close> on a key that is
  present replaces the value where it stands, on a new key appends; \<^verbatim>\<open>values()\<close> lists
  the values in that order. The model is the list of entries.
\<close>

type_synonym 'v js_map = "(string \<times> 'v) list"

fun Map_get :: "'v js_map \<Rightarrow> string \<Rightarrow> 'v option" where
  "Map_get [] k = None"
| "Map_get ((k', v) # es) k = (if k' = k then Some v else Map_get es k)"

fun Map_set :: "'v js_map \<Rightarrow> string \<Rightarrow> 'v \<Rightarrow> 'v js_map" where
  "Map_set [] k v = [(k, v)]"
| "Map_set ((k', v') # es) k v = (if k' = k then (k, v) # es else (k', v') # Map_set es k v)"

fun Map_delete :: "'v js_map \<Rightarrow> string \<Rightarrow> bool \<times> 'v js_map" where
  "Map_delete [] k = (False, [])"
| "Map_delete ((k', v') # es) k =
     (if k' = k then (True, es)
      else (case Map_delete es k of (found, es') \<Rightarrow> (found, (k', v') # es')))"

definition Map_values :: "'v js_map \<Rightarrow> 'v list" where
  "Map_values es = map snd es"

section \<open>MemStorage (storage.ts)\<close>

text \<open>The three private maps of the class (\<^verbatim>\<open>tenants\<close>, \<^verbatim>\<open>users\<close>, \<^verbatim>\<open>notes\<close>).\<close>

record MemStorage =
  mem_tenants :: "Tenant js_map"
  mem_users :: "User js_map"
  mem_notes :: "Note js_map"

definition new_MemStorage :: MemStorage where
  "new_MemStorage = \<lparr>mem_tenants = [], mem_users = [], mem_notes = []\<rparr>"

text \<open>
  Every method is \<^verbatim>\<open>async\<close> and runs to completion without awaiting anything, so a call
  is one step: it takes the storage and returns its result (with the storage after it
  when it writes). The two effects a method reads from outside, \<^verbatim>\<open>nanoid()\<close> and
  \<^verbatim>\<open>new Date()\<close>, are arguments.
\<close>

definition getTenant :: "MemStorage \<Rightarrow> string \<Rightarrow> Tenant option" where
  "getTenant st ident = Map_get (mem_tenants st) ident"

fun getTenantBySlug_loop :: "Tenant list \<Rightarrow> string \<Rightarrow> Tenant option" where
  "getTenantBySlug_loop [] slug = None"
| "getTenantBySlug_loop (tenant # rest) slug =
     (if tenant_slug tenant = slug then Some tenant else getTenantBySlug_loop rest slug)"

definition getTenantBySlug :: "MemStorage \<Rightarrow> string \<Rightarrow> Tenant option" where
  "getTenantBySlug st slug = getTenantBySlug_loop (Map_values (mem_tenants st)) slug"

definition createTenant :: "MemStorage \<Rightarrow> InsertTenant \<Rightarrow> string \<Rightarrow> date \<Rightarrow> Tenant \<times> MemStorage" where
  "createTenant st tenantData nanoid now =
     (let tenant = \<lparr>tenant_id = nanoid, tenant_name = it_name tenantData,
                     tenant_slug = it_slug tenantData, tenant_plan = it_plan tenantData,
                     tenant_createdAt = Some now, tenant_updatedAt = Some now\<rparr>
      in (tenant, st\<lparr>mem_tenants := Map_set (mem_tenants st) nanoid tenant\<rparr>))"

definition updateTenantPlan :: "MemStorage \<Rightarrow> string \<Rightarrow> plan \<Rightarrow> date \<Rightarrow> Tenant option \<times> MemStorage" where
  "updateTenantPlan st ident p now =
     (case Map_get (mem_tenants st) ident of
        None \<Rightarrow> (None, st)
      | Some tenant \<Rightarrow>
          (let updatedTenant = tenant\<lparr>tenant_plan := p, tenant_updatedAt := Some now\<rparr>
           in (Some updatedTenant, st\<lparr>mem_tenants := Map_set (mem_tenants st) ident updatedTenant\<rparr>)))"

definition getUser :: "MemStorage \<Rightarrow> string \<Rightarrow> User option" where
  "getUser st ident = Map_get (mem_users st) ident"

fun getUserByEmail_loop :: "User list \<Rightarrow> string \<Rightarrow> User option" where
  "getUserByEmail_loop [] email = None"
| "getUserByEmail_loop (user # rest) email =
     (if user_email user = email then Some user else getUserByEmail_loop rest email)"

definition getUserByEmail :: "MemStorage \<Rightarrow> string \<Rightarrow> User option" where
  "getUserByEmail st email = getUserByEmail_loop (Map_values (mem_users st)) email"

definition createUser :: "MemStorage \<Rightarrow> InsertUser \<Rightarrow> string \<Rightarrow> date \<Rightarrow> User \<times> MemStorage" where
  "createUser st userData nanoid now =
     (let user = \<lparr>user_id = nanoid, user_email = iu_email userData,
                   user_passwordHash = iu_passwordHash userData, user_role = iu_role userData,
                   user_tenantId = iu_tenantId userData,
                   user_createdAt = Some now, user_updatedAt = Some now\<rparr>
      in (user, st\<lparr>mem_users := Map_set (mem_users st) nanoid user\<rparr>))"

text \<open>The \<^verbatim>\<open>for ... of\<close> loop of \<^verbatim>\<open>getNotesByTenant\<close>: the third argument is the array
  \<^verbatim>\<open>notes\<close> being filled by \<^verbatim>\<open>push\<close>.\<close>

fun getNotesByTenant_loop :: "Note list \<Rightarrow> string \<Rightarrow> Note list \<Rightarrow> Note list" where
  "getNotesByTenant_loop [] tenantId acc = acc"
| "getNotesByTenant_loop (note # rest) tenantId acc =
     getNotesByTenant_loop rest tenantId
       (if note_tenantId note = tenantId then acc @ [note] else acc)"

definition getNotesByTenant :: "MemStorage \<Rightarrow> string \<Rightarrow> Note list" where
  "getNotesByTenant st tenantId = getNotesByTenant_loop (Map_values (mem_notes st)) tenantId []"

definition getNote :: "MemStorage \<Rightarrow> string \<Rightarrow> string \<Rightarrow> Note option" where
  "getNote st ident tenantId =
     (case Map_get (mem_notes st) ident of
        None \<Rightarrow> None
      | Some note \<Rightarrow> if note_tenantId note \<noteq> tenantId then None else Some note)"

definition createNote :: "MemStorage \<Rightarrow> InsertNote \<Rightarrow> string \<Rightarrow> date \<Rightarrow> Note \<times> MemStorage" where
  "createNote st noteData nanoid now =
     (let note = \<lparr>note_id = nanoid, note_title = in_title noteData,
                   note_body = in_body noteData, note_tenantId = in_tenantId noteData,
                   note_authorId = in_authorId noteData,
                   note_createdAt = Some now, note_updatedAt = Some now\<rparr>
      in (note, st\<lparr>mem_notes := Map_set (mem_notes st) nanoid note\<rparr>))"

text \<open>The object spread \<^verbatim>\<open>{...note, ...updates, updatedAt: new Date()}\<close>: a key present
  in \<^verbatim>\<open>updates\<close> replaces the note's.\<close>

definition spread_updates :: "Note \<Rightarrow> UpdateNote \<Rightarrow> Note" where
  "spread_updates note updates =
     note\<lparr>note_title := (case un_title updates of None \<Rightarrow> note_title note | Some t \<Rightarrow> t),
          note_body := (case un_body updates of None \<Rightarrow> note_body note | Some b \<Rightarrow> b)\<rparr>"

definition updateNote :: "MemStorage \<Rightarrow> string \<Rightarrow> string \<Rightarrow> UpdateNote \<Rightarrow> date \<Rightarrow> Note option \<times> MemStorage" where
  "updateNote st ident tenantId updates now =
     (case Map_get (mem_notes st) ident of
        None \<Rightarrow> (None, st)
      | Some note \<Rightarrow>
          if note_tenantId note \<noteq> tenantId then (None, st)
          else (let updatedNote = (spread_updates note updates)\<lparr>note_updatedAt := Some now\<rparr>
                in (Some updatedNote, st\<lparr>mem_notes := Map_set (mem_notes st) ident updatedNote\<rparr>)))"

definition deleteNote :: "MemStorage \<Rightarrow> string \<Rightarrow> string \<Rightarrow> bool \<times> MemStorage" where
  "deleteNote st ident tenantId =
     (case Map_get (mem_notes st) ident of
        None \<Rightarrow> (False, st)
      | Some note \<Rightarrow>
          if note_tenantId note \<noteq> tenantId then (False, st)
          else (case Map_delete (mem_notes st) ident of
                  (found, es) \<Rightarrow> (found, st\<lparr>mem_notes := es\<rparr>)))"

fun countNotesByTenant_loop :: "Note list \<Rightarrow> string \<Rightarrow> nat \<Rightarrow> nat" where
  "countNotesByTenant_loop [] tenantId count = count"
| "countNotesByTenant_loop (note # rest) tenantId count =
     countNotesByTenant_loop rest tenantId
       (if note_tenantId note = tenantId then count + 1 else count)"

definition countNotesByTenant :: "MemStorage \<Rightarrow> string \<Rightarrow> nat" where
  "countNotesByTenant st tenantId = countNotesByTenant_loop (Map_values (mem_notes st)) tenantId 0"

text \<open>Every note sits in the map under its own \<^verbatim>\<open>_id\<close>: \<^verbatim>\<open>createNote\<close> stores it so, and
  \<^verbatim>\<open>updateNote\<close> and \<^verbatim>\<open>deleteNote\<close> keep it so.\<close>

definition notes_keyed_by_id :: "MemStorage \<Rightarrow> bool" where
  "notes_keyed_by_id st = list_all (\<lambda>(k, note). note_id note = k) (mem_notes st)"

section \<open>Backend selection (storage.ts, models/index.ts)\<close>

text \<open>
  The process configuration the code reads from \<^verbatim>\<open>process.env\<close>. A variable that is unset
  is \<open>None\<close>; the tests \<^verbatim>\<open>!mongoUri\<close> and \<^verbatim>\<open>!jwtSecret\<close> also hold for the empty string.
\<close>

record Env =
  JWT_SECRET :: "string option"
  MONGODB_URI :: "string option"

definition falsy :: "string option \<Rightarrow> bool" where
  "falsy v = (case v of None \<Rightarrow> True | Some s \<Rightarrow> s = [])"

datatype connect_error = MissingUri | ConnectFailed

text \<open>\<^verbatim>\<open>connectDB\<close>: throws when the connection string is missing, otherwise awaits
  \<^verbatim>\<open>mongoose.connect\<close>, whose outcome (the second argument: does it connect?) belongs to
  the network; any error is logged and rethrown.\<close>

definition connectDB :: "Env \<Rightarrow> bool \<Rightarrow> connect_error + unit" where
  "connectDB env connects =
     (if falsy (MONGODB_URI env) then Inl MissingUri
      else if connects then Inr ()
      else Inl ConnectFailed)"

text \<open>\<^verbatim>\<open>MongoStorage\<close> has no fields (its data is in the database). The two module-level
  variables of storage.ts, both \<^verbatim>\<open>null\<close> when the module is loaded:\<close>

datatype MongoStorage = MongoStorage

record Globals =
  mongoStorage :: "MongoStorage option"
  memoryStorageFallback :: "MemStorage option"

definition initial_Globals :: Globals where
  "initial_Globals = \<lparr>mongoStorage = None, memoryStorageFallback = None\<rparr>"

datatype IStorage = Mongo MongoStorage | Mem MemStorage

text \<open>What one call of \<^verbatim>\<open>initializeStorage\<close> does: the backend it returns, whether it
  called \<^verbatim>\<open>connectDB\<close>, and the module variables after it.\<close>

record Selection =
  selected :: IStorage
  connect_attempted :: bool
  globals_after :: Globals

definition initializeStorage :: "Env \<Rightarrow> bool \<Rightarrow> Globals \<Rightarrow> Selection" where
  "initializeStorage env connects g =
     (case mongoStorage g of
        Some m \<Rightarrow> \<lparr>selected = Mongo m, connect_attempted = False, globals_after = g\<rparr>
      | None \<Rightarrow>
          (case connectDB env connects of
             Inr u \<Rightarrow>
               \<lparr>selected = Mongo MongoStorage, connect_attempted = True,
                globals_after = g\<lparr>mongoStorage := Some MongoStorage\<rparr>\<rparr>
           | Inl err \<Rightarrow>
               (case memoryStorageFallback g of
                  None \<Rightarrow>
                    \<lparr>selected = Mem new_MemStorage, connect_attempted = True,
                     globals_after = g\<lparr>memoryStorageFallback := Some new_MemStorage\<rparr>\<rparr>
                | Some mem \<Rightarrow>
                    \<lparr>selected = Mem mem, connect_attempted = True, globals_after = g\<rparr>)))"

definition getStorage :: "Env \<Rightarrow> bool \<Rightarrow> Globals \<Rightarrow> Selection" where
  "getStorage env connects g = initializeStorage env connects g"

text \<open>
  A process lifetime as far as selection goes: a sequence of storage accesses, each a
  \<^verbatim>\<open>getStorage()\<close> followed by what the caller does with the backend. An access is given
  by the answer the network would give to a connection attempt made then, and by the
  caller's writes; writes to the in-memory instance change the object the module variable
  refers to. The result lists, per access, the backend returned and whether a connection
  was attempted.
\<close>

type_synonym access = "bool \<times> (MemStorage \<Rightarrow> MemStorage)"

definition after_access :: "Selection \<Rightarrow> (MemStorage \<Rightarrow> MemStorage) \<Rightarrow> Globals" where
  "after_access r writes =
     (case selected r of
        Mongo m \<Rightarrow> globals_after r
      | Mem mem \<Rightarrow> (globals_after r)\<lparr>memoryStorageFallback := Some (writes mem)\<rparr>)"

fun storage_accesses :: "Env \<Rightarrow> Globals \<Rightarrow> access list \<Rightarrow> (IStorage \<times> bool) list" where
  "storage_accesses env g [] = []"
| "storage_accesses env g ((connects, writes) # later) =
     (let r = getStorage env connects g
      in (selected r, connect_attempted r) # storage_accesses env (after_access r writes) later)"

text \<open>The in-memory instance a failed attempt hands out: the one already made, or a new one.\<close>

definition fallback_instance :: "Globals \<Rightarrow> MemStorage" where
  "fallback_instance g =
     (case memoryStorageFallback g of None \<Rightarrow> new_MemStorage | Some mem \<Rightarrow> mem)"

section \<open>Request bodies and their schemas\<close>

text \<open>
  A request body as \<^verbatim>\<open>express.json()\<close> leaves it in \<^verbatim>\<open>req.body\<close>: a JSON value, or
  \<open>None\<close> for \<^verbatim>\<open>undefined\<close>. An object is the list of its entries, read by key.
\<close>

datatype json = JNull | JBool bool | JNum int | JStr string | JArr "json list"
  | JObj "(string \<times> json) list"

fun property :: "(string \<times> json) list \<Rightarrow> string \<Rightarrow> json option" where
  "property [] k = None"
| "property ((k', v) # es) k = (if k' = k then Some v else property es k)"

text \<open>
  The checks of the validation library that the schemas of shared/schema.ts use.
  \<^verbatim>\<open>z.string().min(n)\<close> accepts a string of length at least \<open>n\<close>; \<^verbatim>\<open>z.string().email()\<close>
  accepts a string the library's e-mail pattern matches, a parameter here.
  \<^verbatim>\<open>z.object\<close> accepts an object whose listed keys all pass and drops the others;
  \<^verbatim>\<open>parse\<close> throws on failure (\<open>None\<close>).
\<close>

definition z_string_min :: "nat \<Rightarrow> json option \<Rightarrow> string option" where
  "z_string_min n v =
     (case v of Some (JStr s) \<Rightarrow> if n \<le> length s then Some s else None | _ \<Rightarrow> None)"

definition z_string_email :: "(string \<Rightarrow> bool) \<Rightarrow> json option \<Rightarrow> string option" where
  "z_string_email is_email v =
     (case v of Some (JStr s) \<Rightarrow> if is_email s then Some s else None | _ \<Rightarrow> None)"

record LoginRequest =
  lr_email :: string
  lr_password :: string

record SignupRequest =
  sr_email :: string
  sr_password :: string
  sr_organizationName :: string

record NoteInput =
  ni_title :: string
  ni_body :: string

definition loginSchema_parse :: "(string \<Rightarrow> bool) \<Rightarrow> json option \<Rightarrow> LoginRequest option" where
  "loginSchema_parse is_email body =
     (case body of
        Some (JObj es) \<Rightarrow>
          (case (z_string_email is_email (property es ''email''),
                 z_string_min 1 (property es ''password'')) of
             (Some e, Some p) \<Rightarrow> Some \<lparr>lr_email = e, lr_password = p\<rparr>
           | _ \<Rightarrow> None)
      | _ \<Rightarrow> None)"

definition signupSchema_parse :: "(string \<Rightarrow> bool) \<Rightarrow> json option \<Rightarrow> SignupRequest option" where
  "signupSchema_parse is_email body =
     (case body of
        Some (JObj es) \<Rightarrow>
          (case (z_string_email is_email (property es ''email''),
                 z_string_min 6 (property es ''password''),
                 z_string_min 1 (property es ''organizationName'')) of
             (Some e, Some p, Some n) \<Rightarrow>
               Some \<lparr>sr_email = e, sr_password = p, sr_organizationName = n\<rparr>
           | _ \<Rightarrow> None)
      | _ \<Rightarrow> None)"

definition insertNoteSchema_parse :: "json option \<Rightarrow> NoteInput option" where
  "insertNoteSchema_parse body =
     (case body of
        Some (JObj es) \<Rightarrow>
          (case (z_string_min 1 (property es ''title''), z_string_min 1 (property es ''body'')) of
             (Some t, Some b) \<Rightarrow> Some \<lparr>ni_title = t, ni_body = b\<rparr>
           | _ \<Rightarrow> None)
      | _ \<Rightarrow> None)"

section \<open>Slug derivation (routes.ts, signup)\<close>

text \<open>
  A \<open>char\<close> is one UTF-16 code unit in the range U+0000 to U+00FF, read by its code.
  On that range \<^verbatim>\<open>toLowerCase\<close> moves A-Z and the accented capitals U+00C0 to U+00DE
  (the multiplication sign U+00D7 apart) up by 32, and the class \<^verbatim>\<open>\s\<close> holds tab, line
  feed, vertical tab, form feed, carriage return, space and the no-break space U+00A0.
\<close>

definition toLowerCase_char :: "char \<Rightarrow> char" where
  "toLowerCase_char c =
     (let n = (of_char c :: nat)
      in if (65 \<le> n \<and> n \<le> 90) \<or> (192 \<le> n \<and> n \<le> 222 \<and> n \<noteq> 215)
         then char_of (n + 32) else c)"

definition toLowerCase :: "string \<Rightarrow> string" where
  "toLowerCase s = map toLowerCase_char s"

definition is_a_z :: "char \<Rightarrow> bool" where
  "is_a_z c = (97 \<le> (of_char c :: nat) \<and> (of_char c :: nat) \<le> 122)"

definition is_0_9 :: "char \<Rightarrow> bool" where
  "is_0_9 c = (48 \<le> (of_char c :: nat) \<and> (of_char c :: nat) \<le> 57)"

definition is_space :: "char \<Rightarrow> bool" where
  "is_space c =
     (let n = (of_char c :: nat) in (9 \<le> n \<and> n \<le> 13) \<or> n = 32 \<or> n = 160)"

text \<open>\<^verbatim>\<open>.replace(/[^a-z0-9\s]/g, '')\<close>: the pattern matches one character outside the three
  classes; the scan deletes each match and copies every other character.\<close>

fun replace_other_chars :: "string \<Rightarrow> string" where
  "replace_other_chars [] = []"
| "replace_other_chars (c # cs) =
     (if \<not> (is_a_z c \<or> is_0_9 c \<or> is_space c) then replace_other_chars cs
      else c # replace_other_chars cs)"

text \<open>\<^verbatim>\<open>.replace(/\s+/g, '-')\<close>: at a whitespace character the greedy \<^verbatim>\<open>\s+\<close> takes it and
  all whitespace that follows, the match becomes one hyphen and the scan goes on after
  it; any other character is copied.\<close>

function replace_space_runs :: "string \<Rightarrow> string" where
  "replace_space_runs [] = []"
| "replace_space_runs (c # cs) =
     (if is_space c then CHR ''-'' # replace_space_runs (dropWhile is_space cs)
      else c # replace_space_runs cs)"
  by pat_completeness auto
termination
  by (relation "measure length") (auto simp: length_dropWhile_le le_imp_less_Suc)

text \<open>\<^verbatim>\<open>s.substring(a, b)\<close> for indices that are natural numbers: the characters from the
  smaller index up to the larger, as far as the string goes.\<close>

definition substring :: "string \<Rightarrow> nat \<Rightarrow> nat \<Rightarrow> string" where
  "substring s a b = take (max a b - min a b) (drop (min a b) s)"

definition deriveSlug :: "string \<Rightarrow> string" where
  "deriveSlug organizationName =
     substring (replace_space_runs (replace_other_chars (toLowerCase organizationName))) 0 50"

text \<open>
  The derivation as the specification words it: lowercase the name; strip every character
  that is not a lowercase letter, a digit or whitespace; replace each maximal run of
  whitespace with a single hyphen; truncate to at most 50 characters. A run is replaced
  by writing a hyphen for its first character (the one that does not follow whitespace)
  and nothing for the others.
\<close>

fun hyphen_per_run :: "bool \<Rightarrow> string \<Rightarrow> string" where
  "hyphen_per_run after_space [] = []"
| "hyphen_per_run after_space (c # cs) =
     (if is_space c
      then (if after_space then hyphen_per_run True cs else CHR ''-'' # hyphen_per_run True cs)
      else c # hyphen_per_run False cs)"

definition slug_spec :: "string \<Rightarrow> string" where
  "slug_spec name =
     take 50 (hyphen_per_run False
       (filter (\<lambda>c. is_a_z c \<or> is_0_9 c \<or> is_space c) (map toLowerCase_char name)))"

section \<open>Identity and responses (shared/schema.ts, middleware/auth.ts)\<close>

record TenantInfo =
  ti_id :: string
  ti_name :: string
  ti_slug :: string
  ti_plan :: plan

record AuthUser =
  au_id :: string
  au_email :: string
  au_role :: role
  au_tenantId :: string
  au_tenant :: TenantInfo

record AuthResponseUser =
  aru_id :: string
  aru_email :: string
  aru_role :: role
  aru_tenant :: TenantInfo

record AuthResponse =
  ar_token :: string
  ar_user :: AuthResponseUser

text \<open>The claims a token carries, \<^verbatim>\<open>{sub, role, tenantId}\<close>.\<close>

record TokenClaims =
  tc_sub :: string
  tc_role :: role
  tc_tenantId :: string

text \<open>What a handler sends: \<^verbatim>\<open>res.status(n).json(body)\<close>, with status 200 for a bare
  \<^verbatim>\<open>res.json(body)\<close>.\<close>

datatype payload =
    Message string
  | Auth AuthResponse
  | OneNote Note
  | Upgraded string Tenant

datatype response = Response (status: nat) (payload: payload)

text \<open>What a \<^verbatim>\<open>try\<close> block can throw, and the \<^verbatim>\<open>catch\<close> every route handler ends with.\<close>

datatype thrown = Error string | ZodError | JsonWebTokenError | QueryError | BSONError

definition catch_500 :: "thrown + response \<Rightarrow> response" where
  "catch_500 r =
     (case r of Inl e \<Rightarrow> Response 500 (Message ''Internal server error'') | Inr res \<Rightarrow> res)"

text \<open>
  The collaborators outside the repository, as parameters: the validation library's
  e-mail pattern, \<^verbatim>\<open>bcrypt.compare\<close> and \<^verbatim>\<open>bcrypt.hash(_, 10)\<close>, \<^verbatim>\<open>jwt.sign\<close> and
  \<^verbatim>\<open>jwt.verify\<close> (\<open>None\<close> when it throws), and the two database queries of the
  middleware with the identity built from them, taken as one lookup.
\<close>

datatype lookup = QueryThrows | UserMissing | TenantMissing | Loaded AuthUser

record Deps =
  is_email :: "string \<Rightarrow> bool"
  bcrypt_compare :: "string \<Rightarrow> string \<Rightarrow> bool"
  bcrypt_hash :: "string \<Rightarrow> string"
  jwt_sign :: "TokenClaims \<Rightarrow> string \<Rightarrow> string"
  jwt_verify :: "string \<Rightarrow> string \<Rightarrow> TokenClaims option"
  load_identity :: "TokenClaims \<Rightarrow> lookup"

text \<open>A middleware either answers the request or calls \<^verbatim>\<open>next()\<close> with \<^verbatim>\<open>req.user\<close> set.\<close>

datatype middleware = Reply response | Next AuthUser

text \<open>\<^verbatim>\<open>s.split(' ')\<close>: the pieces between single spaces (one piece more than spaces).\<close>

fun split_space :: "string \<Rightarrow> string list" where
  "split_space [] = [[]]"
| "split_space (c # cs) =
     (if c = CHR '' '' then [] # split_space cs
      else (case split_space cs of [] \<Rightarrow> [[c]] | w # ws \<Rightarrow> (c # w) # ws))"

text \<open>\<^verbatim>\<open>authHeader && authHeader.split(' ')[1]\<close>, with the test \<^verbatim>\<open>!token\<close>: \<open>None\<close> when the
  header is missing or empty, or has no second piece, or an empty one.\<close>

definition bearer_token :: "string option \<Rightarrow> string option" where
  "bearer_token authHeader =
     (case authHeader of
        None \<Rightarrow> None
      | Some h \<Rightarrow>
          (case split_space h of
             p0 # p1 # ps \<Rightarrow> if p1 = [] then None else Some p1
           | _ \<Rightarrow> None))"

definition secret_error :: thrown where
  "secret_error = Error ''JWT_SECRET environment variable is required''"

text \<open>The \<^verbatim>\<open>try\<close> block of \<^verbatim>\<open>authenticateToken\<close>, then the function with its \<^verbatim>\<open>catch\<close>.\<close>

definition authenticateToken_try :: "Deps \<Rightarrow> Env \<Rightarrow> string \<Rightarrow> thrown + middleware" where
  "authenticateToken_try deps env token =
     (case JWT_SECRET env of
        None \<Rightarrow> Inl secret_error
      | Some jwtSecret \<Rightarrow>
          if jwtSecret = [] then Inl secret_error
          else (case jwt_verify deps token jwtSecret of
                  None \<Rightarrow> Inl JsonWebTokenError
                | Some decoded \<Rightarrow>
                    (case load_identity deps decoded of
                       QueryThrows \<Rightarrow> Inl QueryError
                     | UserMissing \<Rightarrow> Inr (Reply (Response 401 (Message ''User not found'')))
                     | TenantMissing \<Rightarrow> Inr (Reply (Response 401 (Message ''Tenant not found'')))
                     | Loaded u \<Rightarrow> Inr (Next u))))"

definition authenticateToken :: "Deps \<Rightarrow> Env \<Rightarrow> string option \<Rightarrow> middleware" where
  "authenticateToken deps env authHeader =
     (case bearer_token authHeader of
        None \<Rightarrow> Reply (Response 401 (Message ''Access token required''))
      | Some token \<Rightarrow>
          (case authenticateToken_try deps env token of
             Inl e \<Rightarrow> Reply (Response 401 (Message ''Invalid token''))
           | Inr m \<Rightarrow> m))"

definition requireAdmin :: "AuthUser option \<Rightarrow> middleware" where
  "requireAdmin req_user =
     (case req_user of
        None \<Rightarrow> Reply (Response 401 (Message ''Authentication required''))
      | Some u \<Rightarrow>
          if au_role u \<noteq> Admin then Reply (Response 403 (Message ''Admin access required''))
          else Next u)"

section \<open>MongoStorage and the storage interface (storage.ts)\<close>

text \<open>
  The primary backend keeps its notes in a database collection, reached through the
  document library. The collection is the list of its documents. What a call reads from
  outside the program is gathered in one record: the id the backend gives a new note
  (\<^verbatim>\<open>nanoid()\<close> in memory, the document id on the primary), the clock, whether the count
  query and the save are rejected by the database, and \<^verbatim>\<open>new mongoose.Types.ObjectId(s)\<close>,
  which throws for a string that is no object id (\<open>None\<close>) and otherwise has the
  \<^verbatim>\<open>toString()\<close> given.
\<close>

record Database =
  db_notes :: "Note list"

record Effects =
  new_id :: string
  clock :: date
  ObjectId :: "string \<Rightarrow> string option"
  count_rejected :: bool
  save_rejected :: bool

text \<open>\<^verbatim>\<open>MongoStorage.countNotesByTenant\<close>: the \<^verbatim>\<open>try\<close> block, then the method, whose \<^verbatim>\<open>catch\<close>
  logs the error and returns 0.\<close>

definition Mongo_countNotesByTenant_try :: "Effects \<Rightarrow> Database \<Rightarrow> string \<Rightarrow> thrown + nat" where
  "Mongo_countNotesByTenant_try fx db tenantId =
     (case ObjectId fx tenantId of
        None \<Rightarrow> Inl BSONError
      | Some oid \<Rightarrow>
          if count_rejected fx then Inl QueryError
          else Inr (length (filter (\<lambda>doc. note_tenantId doc = oid) (db_notes db))))"

definition Mongo_countNotesByTenant :: "Effects \<Rightarrow> Database \<Rightarrow> string \<Rightarrow> nat" where
  "Mongo_countNotesByTenant fx db tenantId =
     (case Mongo_countNotesByTenant_try fx db tenantId of Inl e \<Rightarrow> 0 | Inr n \<Rightarrow> n)"

text \<open>\<^verbatim>\<open>MongoStorage.createNote\<close>: builds the document (both ids through \<^verbatim>\<open>ObjectId\<close>), saves
  it and returns it with its ids as strings; the \<^verbatim>\<open>catch\<close> logs the error and throws it
  again.\<close>

definition Mongo_createNote :: "Effects \<Rightarrow> Database \<Rightarrow> InsertNote \<Rightarrow> thrown + Note \<times> Database" where
  "Mongo_createNote fx db noteData =
     (case ObjectId fx (in_tenantId noteData) of
        None \<Rightarrow> Inl BSONError
      | Some tenantOid \<Rightarrow>
          (case ObjectId fx (in_authorId noteData) of
             None \<Rightarrow> Inl BSONError
           | Some authorOid \<Rightarrow>
               if save_rejected fx then Inl QueryError
               else (let savedNote =
                           \<lparr>note_id = new_id fx, note_title = in_title noteData,
                            note_body = in_body noteData, note_tenantId = tenantOid,
                            note_authorId = authorOid,
                            note_createdAt = Some (clock fx), note_updatedAt = Some (clock fx)\<rparr>
                     in Inr (savedNote, db\<lparr>db_notes := db_notes db @ [savedNote]\<rparr>))))"

text \<open>
  The two methods of \<^verbatim>\<open>IStorage\<close> that create-note calls, on whichever backend
  \<^verbatim>\<open>getStorage()\<close> returned: the in-memory instance, or the primary backend with the
  database behind it.
\<close>

definition IStorage_countNotesByTenant :: "Effects \<Rightarrow> IStorage \<Rightarrow> Database \<Rightarrow> string \<Rightarrow> nat" where
  "IStorage_countNotesByTenant fx storage db tenantId =
     (case storage of
        Mem st \<Rightarrow> countNotesByTenant st tenantId
      | Mongo m \<Rightarrow> Mongo_countNotesByTenant fx db tenantId)"

definition IStorage_createNote ::
  "Effects \<Rightarrow> IStorage \<Rightarrow> Database \<Rightarrow> InsertNote \<Rightarrow> thrown + Note \<times> IStorage \<times> Database" where
  "IStorage_createNote fx storage db noteData =
     (case storage of
        Mem st \<Rightarrow>
          (case createNote st noteData (new_id fx) (clock fx) of
             (note, st') \<Rightarrow> Inr (note, Mem st', db))
      | Mongo m \<Rightarrow>
          (case Mongo_createNote fx db noteData of
             Inl e \<Rightarrow> Inl e
           | Inr (note, db') \<Rightarrow> Inr (note, Mongo m, db')))"

section \<open>Route handlers (routes.ts)\<close>

text \<open>
  Each handler is its \<^verbatim>\<open>try\<close> block, which returns the response it sends or the error
  it throws together with the storage as it stands then, followed by the \<^verbatim>\<open>catch\<close>. The
  storage is the one \<^verbatim>\<open>getStorage()\<close> handed out, here the in-memory one.
\<close>

definition tenant_info :: "Tenant \<Rightarrow> TenantInfo" where
  "tenant_info tenant =
     \<lparr>ti_id = tenant_id tenant, ti_name = tenant_name tenant,
      ti_slug = tenant_slug tenant, ti_plan = tenant_plan tenant\<rparr>"

definition auth_response :: "Deps \<Rightarrow> string \<Rightarrow> User \<Rightarrow> Tenant \<Rightarrow> AuthResponse" where
  "auth_response deps jwtSecret user tenant =
     \<lparr>ar_token = jwt_sign deps
         \<lparr>tc_sub = user_id user, tc_role = user_role user, tc_tenantId = user_tenantId user\<rparr>
         jwtSecret,
      ar_user = \<lparr>aru_id = user_id user, aru_email = user_email user, aru_role = user_role user,
                 aru_tenant = tenant_info tenant\<rparr>\<rparr>"

definition login_try :: "Deps \<Rightarrow> Env \<Rightarrow> MemStorage \<Rightarrow> json option \<Rightarrow> thrown + response" where
  "login_try deps env st body =
     (case loginSchema_parse (is_email deps) body of
        None \<Rightarrow> Inl ZodError
      | Some req \<Rightarrow>
          (case getUserByEmail st (lr_email req) of
             None \<Rightarrow> Inr (Response 401 (Message ''Invalid credentials''))
           | Some user \<Rightarrow>
               if \<not> bcrypt_compare deps (lr_password req) (user_passwordHash user)
               then Inr (Response 401 (Message ''Invalid credentials''))
               else (case getTenant st (user_tenantId user) of
                       None \<Rightarrow> Inr (Response 401 (Message ''Tenant not found''))
                     | Some tenant \<Rightarrow>
                         (case JWT_SECRET env of
                            None \<Rightarrow> Inl secret_error
                          | Some jwtSecret \<Rightarrow>
                              if jwtSecret = [] then Inl secret_error
                              else Inr (Response 200
                                     (Auth (auth_response deps jwtSecret user tenant)))))))"

definition login :: "Deps \<Rightarrow> Env \<Rightarrow> MemStorage \<Rightarrow> json option \<Rightarrow> response" where
  "login deps env st body = catch_500 (login_try deps env st body)"

text \<open>Signup creates a tenant and then a user, so it reads \<^verbatim>\<open>nanoid()\<close> and the clock
  twice: \<open>tid\<close>, \<open>tnow\<close> for the tenant, \<open>uid\<close>, \<open>unow\<close> for the user.\<close>

definition signup_try ::
  "Deps \<Rightarrow> Env \<Rightarrow> MemStorage \<Rightarrow> json option \<Rightarrow> string \<Rightarrow> date \<Rightarrow> string \<Rightarrow> date
    \<Rightarrow> (thrown + response) \<times> MemStorage" where
  "signup_try deps env st body tid tnow uid unow =
     (case signupSchema_parse (is_email deps) body of
        None \<Rightarrow> (Inl ZodError, st)
      | Some req \<Rightarrow>
          (case getUserByEmail st (sr_email req) of
             Some existingUser \<Rightarrow> (Inr (Response 400 (Message ''Email already registered'')), st)
           | None \<Rightarrow>
               (let slug = deriveSlug (sr_organizationName req) in
                case getTenantBySlug st slug of
                  Some existingTenant \<Rightarrow>
                    (Inr (Response 400 (Message ''Organization name already taken'')), st)
                | None \<Rightarrow>
                    (case createTenant st
                            \<lparr>it_name = sr_organizationName req, it_slug = slug, it_plan = Free\<rparr>
                            tid tnow of
                       (tenant, st1) \<Rightarrow>
                         (case createUser st1
                                 \<lparr>iu_email = sr_email req,
                                  iu_passwordHash = bcrypt_hash deps (sr_password req),
                                  iu_role = Admin, iu_tenantId = tenant_id tenant\<rparr>
                                 uid unow of
                            (user, st2) \<Rightarrow>
                              (case JWT_SECRET env of
                                 None \<Rightarrow> (Inl secret_error, st2)
                               | Some jwtSecret \<Rightarrow>
                                   if jwtSecret = [] then (Inl secret_error, st2)
                                   else (Inr (Response 201
                                           (Auth (auth_response deps jwtSecret user tenant))),
                                         st2)))))))"

definition signup ::
  "Deps \<Rightarrow> Env \<Rightarrow> MemStorage \<Rightarrow> json option \<Rightarrow> string \<Rightarrow> date \<Rightarrow> string \<Rightarrow> date
    \<Rightarrow> response \<times> MemStorage" where
  "signup deps env st body tid tnow uid unow =
     (case signup_try deps env st body tid tnow uid unow of (r, st') \<Rightarrow> (catch_500 r, st'))"

text \<open>\<^verbatim>\<open>GET /api/notes/:id\<close>, behind \<^verbatim>\<open>authenticateToken\<close>: \<open>user\<close> is \<^verbatim>\<open>req.user\<close>.\<close>

definition get_note :: "AuthUser \<Rightarrow> MemStorage \<Rightarrow> string \<Rightarrow> response" where
  "get_note user st ident =
     (case getNote st ident (au_tenantId user) of
        None \<Rightarrow> Response 404 (Message ''Note not found'')
      | Some note \<Rightarrow> Response 200 (OneNote note))"

definition limit_message :: string where
  "limit_message =
     ''Note limit reached. Free plan allows maximum 3 notes. Upgrade to Pro for unlimited notes.''"

text \<open>\<^verbatim>\<open>POST /api/notes\<close>, behind \<^verbatim>\<open>authenticateToken\<close>: \<open>user\<close> is \<^verbatim>\<open>req.user\<close>, \<open>storage\<close> the
  backend \<^verbatim>\<open>getStorage()\<close> returned and \<open>db\<close> the database of the primary backend.\<close>

definition post_note_try ::
  "Effects \<Rightarrow> AuthUser \<Rightarrow> IStorage \<Rightarrow> Database \<Rightarrow> json option
    \<Rightarrow> (thrown + response) \<times> IStorage \<times> Database" where
  "post_note_try fx user storage db body =
     (case insertNoteSchema_parse body of
        None \<Rightarrow> (Inl ZodError, storage, db)
      | Some noteData \<Rightarrow>
          if ti_plan (au_tenant user) = Free
             \<and> 3 \<le> IStorage_countNotesByTenant fx storage db (au_tenantId user)
          then (Inr (Response 403 (Message limit_message)), storage, db)
          else (case IStorage_createNote fx storage db
                       \<lparr>in_title = ni_title noteData, in_body = ni_body noteData,
                        in_tenantId = au_tenantId user, in_authorId = au_id user\<rparr> of
                  Inl e \<Rightarrow> (Inl e, storage, db)
                | Inr (note, storage', db') \<Rightarrow>
                    (Inr (Response 201 (OneNote note)), storage', db')))"

definition post_note ::
  "Effects \<Rightarrow> AuthUser \<Rightarrow> IStorage \<Rightarrow> Database \<Rightarrow> json option
    \<Rightarrow> response \<times> IStorage \<times> Database" where
  "post_note fx user storage db body =
     (case post_note_try fx user storage db body of
        (r, storage', db') \<Rightarrow> (catch_500 r, storage', db'))"

text \<open>\<^verbatim>\<open>POST /api/tenants/:slug/upgrade\<close>: the handler, then the route with
  \<^verbatim>\<open>requireAdmin\<close> before it.\<close>

definition upgrade_handler ::
  "AuthUser \<Rightarrow> MemStorage \<Rightarrow> string \<Rightarrow> date \<Rightarrow> response \<times> MemStorage" where
  "upgrade_handler user st slug now =
     (if ti_slug (au_tenant user) \<noteq> slug
      then (Response 403 (Message ''Cannot upgrade other tenants''), st)
      else (case updateTenantPlan st (au_tenantId user) Pro now of
              (None, st') \<Rightarrow> (Response 404 (Message ''Tenant not found''), st')
            | (Some updatedTenant, st') \<Rightarrow>
                (Response 200 (Upgraded ''Tenant upgraded to Pro plan successfully'' updatedTenant),
                 st')))"

definition post_upgrade ::
  "AuthUser option \<Rightarrow> MemStorage \<Rightarrow> string \<Rightarrow> date \<Rightarrow> response \<times> MemStorage" where
  "post_upgrade req_user st slug now =
     (case requireAdmin req_user of
        Reply r \<Rightarrow> (r, st)
      | Next user \<Rightarrow> upgrade_handler user st slug now)"

section \<open>Example data\<close>

text \<open>
  The two seeded organisations with an administrator each, a store in which Acme holds
  three notes and Globex one, and stand-ins for the outside collaborators, used where a
  result is evaluated on a concrete request.
\<close>

definition demo_note :: "string \<Rightarrow> string \<Rightarrow> Note" where
  "demo_note ident tenantId =
     \<lparr>note_id = ident, note_title = ''Title'', note_body = ''Body'', note_tenantId = tenantId,
      note_authorId = ''u-acme'', note_createdAt = Some 1000, note_updatedAt = Some 1000\<rparr>"

definition demo_tenant :: "string \<Rightarrow> string \<Rightarrow> string \<Rightarrow> Tenant" where
  "demo_tenant ident name slug =
     \<lparr>tenant_id = ident, tenant_name = name, tenant_slug = slug, tenant_plan = Free,
      tenant_createdAt = Some 1000, tenant_updatedAt = Some 1000\<rparr>"

definition demo_user :: User where
  "demo_user =
     \<lparr>user_id = ''u-acme'', user_email = ''admin@acme.test'', user_passwordHash = ''hash:password'',
      user_role = Admin, user_tenantId = ''t-acme'',
      user_createdAt = Some 1000, user_updatedAt = Some 1000\<rparr>"

definition demo_storage :: MemStorage where
  "demo_storage =
     \<lparr>mem_tenants = [(''t-acme'', demo_tenant ''t-acme'' ''Acme Corporation'' ''acme''),
                     (''t-globex'', demo_tenant ''t-globex'' ''Globex Corporation'' ''globex'')],
      mem_users = [(''u-acme'', demo_user)],
      mem_notes = [(''n1'', demo_note ''n1'' ''t-acme''), (''n2'', demo_note ''n2'' ''t-globex''),
                   (''n3'', demo_note ''n3'' ''t-acme''), (''n4'', demo_note ''n4'' ''t-acme'')]\<rparr>"

definition acme_admin :: AuthUser where
  "acme_admin =
     \<lparr>au_id = ''u-acme'', au_email = ''admin@acme.test'', au_role = Admin, au_tenantId = ''t-acme'',
      au_tenant = \<lparr>ti_id = ''t-acme'', ti_name = ''Acme Corporation'', ti_slug = ''acme'',
                    ti_plan = Free\<rparr>\<rparr>"

definition demo_deps :: Deps where
  "demo_deps =
     \<lparr>is_email = (\<lambda>s. CHR ''@'' \<in> set s),
      bcrypt_compare = (\<lambda>password hash. hash = ''hash:'' @ password),
      bcrypt_hash = (\<lambda>password. ''hash:'' @ password),
      jwt_sign = (\<lambda>claims secret. ''signed:'' @ tc_sub claims),
      jwt_verify = (\<lambda>token secret.
         if token = ''signed:u-acme''
         then Some \<lparr>tc_sub = ''u-acme'', tc_role = Admin, tc_tenantId = ''t-acme''\<rparr> else None),
      load_identity = (\<lambda>claims. if tc_sub claims = ''u-acme'' then Loaded acme_admin else UserMissing)\<rparr>"

definition globex_admin :: AuthUser where
  "globex_admin =
     \<lparr>au_id = ''u-globex'', au_email = ''admin@globex.test'', au_role = Admin,
      au_tenantId = ''t-globex'',
      au_tenant = \<lparr>ti_id = ''t-globex'', ti_name = ''Globex Corporation'', ti_slug = ''globex'',
                    ti_plan = Free\<rparr>\<rparr>"

definition signup_body :: "string \<Rightarrow> string \<Rightarrow> string \<Rightarrow> json option" where
  "signup_body email password organizationName =
     Some (JObj [(''email'', JStr email), (''password'', JStr password),
                 (''organizationName'', JStr organizationName)])"

definition login_body :: "string \<Rightarrow> string \<Rightarrow> json option" where
  "login_body email password = Some (JObj [(''email'', JStr email), (''password'', JStr password)])"

definition env_without_secret :: Env where
  "env_without_secret = \<lparr>JWT_SECRET = None, MONGODB_URI = Some ''mongodb://db.example/notes''\<rparr>"

definition demo_env :: Env where
  "demo_env = \<lparr>JWT_SECRET = Some ''secret'', MONGODB_URI = Some ''mongodb://db.example/notes''\<rparr>"

text \<open>
  For the primary backend: an identity whose ids are object ids, a collection with three
  of its tenant's notes, and effects under which every query succeeds. The stand-in for
  the object-id constructor accepts the strings of 24 characters.
\<close>

definition demo_ObjectId :: "string \<Rightarrow> string option" where
  "demo_ObjectId s = (if length s = 24 then Some s else None)"

definition demo_effects :: Effects where
  "demo_effects =
     \<lparr>new_id = ''n5'', clock = 2000, ObjectId = demo_ObjectId,
      count_rejected = False, save_rejected = False\<rparr>"


definition demo_database :: Database where
  "demo_database =
     \<lparr>db_notes = [demo_note ''d1'' ''aaaaaaaaaaaaaaaaaaaaaaaa'',
                  demo_note ''d2'' ''aaaaaaaaaaaaaaaaaaaaaaaa'',
                  demo_note ''d3'' ''aaaaaaaaaaaaaaaaaaaaaaaa'']\<rparr>"

text \<open>Two callers of the storage: one creates a note, one only reads.\<close>

definition add_note :: "MemStorage \<Rightarrow> MemStorage" where
  "add_note st = snd (createNote st
     \<lparr>in_title = ''Title'', in_body = ''Body'', in_tenantId = ''t-acme'', in_authorId = ''u-acme''\<rparr>
     ''n1'' 1000)"

definition no_write :: "MemStorage \<Rightarrow> MemStorage" where
  "no_write st = st"

section \<open>Properties of the storage\<close>

lemma Map_get_set_same: "Map_get (Map_set es k v) k = Some v"
  by (induction es) auto

lemma getNotesByTenant_loop_filter:
  "getNotesByTenant_loop ns t acc = acc @ filter (\<lambda>n. note_tenantId n = t) ns"
  by (induction ns arbitrary: acc) auto

lemma countNotesByTenant_loop_length:
  "countNotesByTenant_loop ns t c = c + length (filter (\<lambda>n. note_tenantId n = t) ns)"
  by (induction ns arbitrary: c) auto

lemma Map_get_list_all: "list_all P es \<Longrightarrow> Map_get es k = Some v \<Longrightarrow> P (k, v)"
  by (induction es) (auto split: if_splits)

lemma Map_set_list_all: "list_all P es \<Longrightarrow> P (k, v) \<Longrightarrow> list_all P (Map_set es k v)"
  by (induction es) auto

lemma Map_delete_list_all: "list_all P es \<Longrightarrow> list_all P (snd (Map_delete es k))"
  by (induction es) (auto split: prod.splits)

lemma notes_keyed_by_id_new: "notes_keyed_by_id new_MemStorage"
  by (simp add: notes_keyed_by_id_def new_MemStorage_def)

lemma notes_keyed_by_id_createNote:
  "notes_keyed_by_id st \<Longrightarrow> notes_keyed_by_id (snd (createNote st noteData nanoid now))"
  by (simp add: notes_keyed_by_id_def createNote_def Let_def Map_set_list_all)

lemma notes_keyed_by_id_updateNote:
  assumes "notes_keyed_by_id st"
  shows "notes_keyed_by_id (snd (updateNote st ident tenantId updates now))"
proof (cases "Map_get (mem_notes st) ident")
  case None
  with assms show ?thesis by (simp add: updateNote_def)
next
  case (Some stored)
  with assms have "note_id stored = ident"
    using Map_get_list_all [of "\<lambda>(k, v). note_id v = k" "mem_notes st" ident stored]
    by (simp add: notes_keyed_by_id_def)
  with assms Some show ?thesis
    by (simp add: notes_keyed_by_id_def updateNote_def Let_def spread_updates_def Map_set_list_all)
qed

lemma notes_keyed_by_id_deleteNote:
  "notes_keyed_by_id st \<Longrightarrow> notes_keyed_by_id (snd (deleteNote st ident tenantId))"
  using Map_delete_list_all [of "\<lambda>(k, v). note_id v = k" "mem_notes st" ident]
  by (auto simp: notes_keyed_by_id_def deleteNote_def split: option.splits prod.splits)

text \<open>
  C1. Whatever the store holds: a note stored under id \<open>n\<close> for another tenant than \<open>T\<close>
  makes \<open>getNote st n T\<close> return null, exactly as an id under which nothing is stored
  does; \<open>getNote st n T\<close> returns a note only if that note is the one stored under \<open>n\<close>
  and its tenant is \<open>T\<close> (and, the notes sitting under their own ids, its id is \<open>n\<close>);
  and \<^verbatim>\<open>GET /api/notes/:id\<close> answers every null with the same 404.
\<close>

theorem getNote_tenant_isolation:
  "(Map_get (mem_notes st) n = Some note \<and> note_tenantId note \<noteq> T \<longrightarrow> getNote st n T = None)
   \<and> (Map_get (mem_notes st) n = None \<longrightarrow> getNote st n T = None)
   \<and> (getNote st n T = Some note \<longleftrightarrow>
        Map_get (mem_notes st) n = Some note \<and> note_tenantId note = T)
   \<and> (notes_keyed_by_id st \<and> getNote st n T = Some note \<longrightarrow> note_id note = n)
   \<and> (getNote st n (au_tenantId user) = None \<longrightarrow>
        get_note user st n = Response 404 (Message ''Note not found''))"
proof -
  have "note_id note = n" if "notes_keyed_by_id st" and "getNote st n T = Some note"
    using that Map_get_list_all [of "\<lambda>(k, v). note_id v = k" "mem_notes st" n "note"]
    by (auto simp: notes_keyed_by_id_def getNote_def split: option.splits if_splits)
  then show ?thesis
    by (auto simp: getNote_def get_note_def split: option.splits)
qed

theorem getNote_tenant_isolation_witness:
  "Map_get (mem_notes demo_storage) ''n2'' = Some (demo_note ''n2'' ''t-globex'')
   \<and> note_tenantId (demo_note ''n2'' ''t-globex'') \<noteq> ''t-acme''
   \<and> getNote demo_storage ''n2'' ''t-acme'' = None
   \<and> Map_get (mem_notes demo_storage) ''n9'' = None
   \<and> getNote demo_storage ''n9'' ''t-acme'' = None
   \<and> notes_keyed_by_id demo_storage
   \<and> getNote demo_storage ''n2'' ''t-globex'' = Some (demo_note ''n2'' ''t-globex'')
   \<and> note_id (demo_note ''n2'' ''t-globex'') = ''n2''
   \<and> get_note acme_admin demo_storage ''n2'' = Response 404 (Message ''Note not found'')
   \<and> get_note acme_admin demo_storage ''n9'' = Response 404 (Message ''Note not found'')"
proof -
  have stored: "Map_get (mem_notes demo_storage) ''n2'' = Some (demo_note ''n2'' ''t-globex'')"
    and other: "note_tenantId (demo_note ''n2'' ''t-globex'') \<noteq> ''t-acme''"
    and missing: "Map_get (mem_notes demo_storage) ''n9'' = None"
    and keyed: "notes_keyed_by_id demo_storage"
    and caller: "au_tenantId acme_admin = ''t-acme''"
    by (simp_all add: demo_storage_def demo_note_def notes_keyed_by_id_def acme_admin_def)
  note cross = getNote_tenant_isolation
    [of demo_storage "''n2''" "demo_note ''n2'' ''t-globex''" "''t-acme''" acme_admin]
  note absent = getNote_tenant_isolation
    [of demo_storage "''n9''" "demo_note ''n2'' ''t-globex''" "''t-acme''" acme_admin]
  note own = getNote_tenant_isolation
    [of demo_storage "''n2''" "demo_note ''n2'' ''t-globex''" "''t-globex''" acme_admin]
  have denied: "getNote demo_storage ''n2'' ''t-acme'' = None"
    using cross stored other by blast
  have unknown_id: "getNote demo_storage ''n9'' ''t-acme'' = None"
    using absent missing by blast
  have granted: "getNote demo_storage ''n2'' ''t-globex'' = Some (demo_note ''n2'' ''t-globex'')"
    using own stored by (simp add: demo_note_def)
  have ident: "note_id (demo_note ''n2'' ''t-globex'') = ''n2''"
    using own keyed granted by blast
  have "get_note acme_admin demo_storage ''n2'' = Response 404 (Message ''Note not found'')"
    using cross denied caller by simp
  moreover have "get_note acme_admin demo_storage ''n9'' = Response 404 (Message ''Note not found'')"
    using absent unknown_id caller by simp
  ultimately show ?thesis
    using stored other denied missing unknown_id keyed granted ident by simp
qed

text \<open>
  C2. Whatever the store holds, every note in the list \<open>getNotesByTenant st T\<close> returns
  is a stored note whose tenant is \<open>T\<close>: no note of another tenant is in the list.
\<close>

theorem getNotesByTenant_only_own:
  "\<forall>note \<in> set (getNotesByTenant st T).
     note_tenantId note = T \<and> note \<in> set (Map_values (mem_notes st))"
  by (simp add: getNotesByTenant_def getNotesByTenant_loop_filter)

theorem getNotesByTenant_only_own_witness:
  "getNotesByTenant demo_storage ''t-acme''
     = [demo_note ''n1'' ''t-acme'', demo_note ''n3'' ''t-acme'', demo_note ''n4'' ''t-acme'']
   \<and> note_tenantId (demo_note ''n1'' ''t-acme'') = ''t-acme''
   \<and> note_tenantId (demo_note ''n3'' ''t-acme'') = ''t-acme''
   \<and> note_tenantId (demo_note ''n4'' ''t-acme'') = ''t-acme''"
  using getNotesByTenant_only_own [of demo_storage "''t-acme''"]
  by (simp add: getNotesByTenant_def demo_storage_def demo_note_def Map_values_def)

text \<open>
  C9, as the code has it. A created note reads back: after \<open>createNote\<close> returns a note,
  \<open>getNote\<close> with that note's id and tenant returns the same note, field for field, from
  the storage \<open>createNote\<close> left. An \<open>updateNote\<close> of it that follows finds the note,
  returns it with the update's fields merged and \<open>updatedAt\<close> set to the time the update
  reads, and stores it. The new \<open>updatedAt\<close> is not earlier than the created one exactly
  when the clock has not gone back since the creation (\<open>t0 \<le> t1\<close>).
\<close>

theorem createNote_getNote_roundtrip:
  assumes "createNote st noteData nanoid t0 = (created, st1)"
  shows "getNote st1 (note_id created) (note_tenantId created) = Some created
       \<and> note_id created = nanoid \<and> note_tenantId created = in_tenantId noteData
       \<and> note_updatedAt created = Some t0
       \<and> (\<exists>updated st2.
             updateNote st1 (note_id created) (note_tenantId created) updates t1 = (Some updated, st2)
           \<and> updated = (spread_updates created updates)\<lparr>note_updatedAt := Some t1\<rparr>
           \<and> note_updatedAt updated = Some t1
           \<and> getNote st2 (note_id created) (note_tenantId created) = Some updated
           \<and> (\<exists>u0 u1. note_updatedAt created = Some u0 \<and> note_updatedAt updated = Some u1
                 \<and> (u0 \<le> u1) = (t0 \<le> t1)))"
  using assms
  by (auto simp: createNote_def getNote_def updateNote_def Let_def Map_get_set_same
        spread_updates_def)

theorem createNote_getNote_roundtrip_witness:
  "createNote demo_storage
       \<lparr>in_title = ''Plan'', in_body = ''Ship it'', in_tenantId = ''t-acme'', in_authorId = ''u-acme''\<rparr>
       ''n5'' 2000
     = (\<lparr>note_id = ''n5'', note_title = ''Plan'', note_body = ''Ship it'', note_tenantId = ''t-acme'',
         note_authorId = ''u-acme'', note_createdAt = Some 2000, note_updatedAt = Some 2000\<rparr>,
        demo_storage\<lparr>mem_notes := mem_notes demo_storage @
          [(''n5'', \<lparr>note_id = ''n5'', note_title = ''Plan'', note_body = ''Ship it'',
                     note_tenantId = ''t-acme'', note_authorId = ''u-acme'',
                     note_createdAt = Some 2000, note_updatedAt = Some 2000\<rparr>)]\<rparr>)
   \<and> getNote (snd (createNote demo_storage
         \<lparr>in_title = ''Plan'', in_body = ''Ship it'', in_tenantId = ''t-acme'', in_authorId = ''u-acme''\<rparr>
         ''n5'' 2000)) ''n5'' ''t-acme''
     = Some \<lparr>note_id = ''n5'', note_title = ''Plan'', note_body = ''Ship it'', note_tenantId = ''t-acme'',
         note_authorId = ''u-acme'', note_createdAt = Some 2000, note_updatedAt = Some 2000\<rparr>
   \<and> fst (updateNote (snd (createNote demo_storage
         \<lparr>in_title = ''Plan'', in_body = ''Ship it'', in_tenantId = ''t-acme'', in_authorId = ''u-acme''\<rparr>
         ''n5'' 2000)) ''n5'' ''t-acme'' \<lparr>un_title = Some ''Plan B'', un_body = None\<rparr> 2500)
     = Some \<lparr>note_id = ''n5'', note_title = ''Plan B'', note_body = ''Ship it'',
         note_tenantId = ''t-acme'', note_authorId = ''u-acme'', note_createdAt = Some 2000,
         note_updatedAt = Some 2500\<rparr>
   \<and> getNote (snd (updateNote (snd (createNote demo_storage
         \<lparr>in_title = ''Plan'', in_body = ''Ship it'', in_tenantId = ''t-acme'', in_authorId = ''u-acme''\<rparr>
         ''n5'' 2000)) ''n5'' ''t-acme'' \<lparr>un_title = Some ''Plan B'', un_body = None\<rparr> 2500))
        ''n5'' ''t-acme''
     = Some \<lparr>note_id = ''n5'', note_title = ''Plan B'', note_body = ''Ship it'',
         note_tenantId = ''t-acme'', note_authorId = ''u-acme'', note_createdAt = Some 2000,
         note_updatedAt = Some 2500\<rparr>"
proof -
  let ?data = "\<lparr>in_title = ''Plan'', in_body = ''Ship it'', in_tenantId = ''t-acme'',
                 in_authorId = ''u-acme''\<rparr>"
  let ?created = "\<lparr>note_id = ''n5'', note_title = ''Plan'', note_body = ''Ship it'',
                   note_tenantId = ''t-acme'', note_authorId = ''u-acme'',
                   note_createdAt = Some 2000, note_updatedAt = Some 2000\<rparr>"
  let ?st1 = "demo_storage\<lparr>mem_notes := mem_notes demo_storage @ [(''n5'', ?created)]\<rparr>"
  let ?updates = "\<lparr>un_title = Some ''Plan B'', un_body = None\<rparr>"
  have made: "createNote demo_storage ?data ''n5'' 2000 = (?created, ?st1)"
    by (simp add: createNote_def Let_def demo_storage_def)
  note trip = createNote_getNote_roundtrip [OF made, of ?updates 2500]
  have readback: "getNote ?st1 ''n5'' ''t-acme'' = Some ?created"
    using trip by simp
  from trip obtain updated st2
    where upd: "updateNote ?st1 ''n5'' ''t-acme'' ?updates 2500 = (Some updated, st2)"
      and val: "updated = (spread_updates ?created ?updates)\<lparr>note_updatedAt := Some 2500\<rparr>"
      and kept: "getNote st2 ''n5'' ''t-acme'' = Some updated"
    by auto
  show ?thesis
    using made readback upd val kept by (simp add: spread_updates_def)
qed

text \<open>
  C9 as stated fails when the clock goes back between the two calls: nothing in
  \<open>updateNote\<close> compares the time it reads with the one stored. A note created at 2000 and
  updated at 1000 has the earlier \<open>updatedAt\<close>.
\<close>

theorem updatedAt_clock_counterexample:
  "map_option note_updatedAt
     (Some (fst (createNote demo_storage
         \<lparr>in_title = ''Plan'', in_body = ''Ship it'', in_tenantId = ''t-acme'', in_authorId = ''u-acme''\<rparr>
         ''n5'' 2000))) = Some (Some 2000)
   \<and> map_option note_updatedAt
     (fst (updateNote (snd (createNote demo_storage
         \<lparr>in_title = ''Plan'', in_body = ''Ship it'', in_tenantId = ''t-acme'', in_authorId = ''u-acme''\<rparr>
         ''n5'' 2000)) ''n5'' ''t-acme'' \<lparr>un_title = Some ''Plan B'', un_body = None\<rparr> 1000))
       = Some (Some 1000)
   \<and> (1000 :: int) < 2000"
  by (simp add: createNote_def updateNote_def spread_updates_def Let_def demo_storage_def
        demo_note_def)

text \<open>
  C10. The two tenant-scoped queries agree: whatever the store holds, for every tenant
  \<open>countNotesByTenant\<close> is the length of the list \<open>getNotesByTenant\<close> returns.
\<close>

theorem countNotesByTenant_is_length:
  "countNotesByTenant st T = length (getNotesByTenant st T)"
  by (simp add: countNotesByTenant_def getNotesByTenant_def getNotesByTenant_loop_filter
        countNotesByTenant_loop_length)

section \<open>Properties of backend selection\<close>

lemma getStorage_connected:
  "mongoStorage g = Some m \<Longrightarrow>
   getStorage env c g = \<lparr>selected = Mongo m, connect_attempted = False, globals_after = g\<rparr>"
  by (simp add: getStorage_def initializeStorage_def)

lemma getStorage_connects:
  "mongoStorage g = None \<Longrightarrow> connectDB env c = Inr () \<Longrightarrow>
   getStorage env c g = \<lparr>selected = Mongo MongoStorage, connect_attempted = True,
     globals_after = g\<lparr>mongoStorage := Some MongoStorage\<rparr>\<rparr>"
  by (simp add: getStorage_def initializeStorage_def)

lemma getStorage_falls_back:
  "mongoStorage g = None \<Longrightarrow> connectDB env c \<noteq> Inr () \<Longrightarrow>
   getStorage env c g = \<lparr>selected = Mem (fallback_instance g), connect_attempted = True,
     globals_after = g\<lparr>memoryStorageFallback := Some (fallback_instance g)\<rparr>\<rparr>"
  by (cases "connectDB env c")
     (auto simp: getStorage_def initializeStorage_def fallback_instance_def split: option.splits)

lemma storage_accesses_connected:
  "mongoStorage g = Some m \<Longrightarrow> storage_accesses env g cs = map (\<lambda>c. (Mongo m, False)) cs"
  by (induction cs) (auto simp: getStorage_connected after_access_def)

text \<open>The access at position \<open>i\<close> of a run that starts with no primary connection:
  induction on the run, with the module variables generalised.\<close>

lemma storage_accesses_nth:
  "mongoStorage g = None \<Longrightarrow> i < length cs \<Longrightarrow>
   storage_accesses env g cs ! i =
     (if \<exists>j\<le>i. connectDB env (fst (cs ! j)) = Inr () then Mongo MongoStorage
      else Mem (fold snd (take i cs) (fallback_instance g)),
      \<forall>j<i. connectDB env (fst (cs ! j)) \<noteq> Inr ())"
proof (induction cs arbitrary: g i)
  case Nil
  then show ?case by simp
next
  case (Cons a cs)
  obtain c w where a: "a = (c, w)"
    by (cases a)
  show ?case
  proof (cases "connectDB env c = Inr ()")
    case True
    note step = getStorage_connects [OF Cons.prems(1) True]
    show ?thesis
    proof (cases i)
      case 0
      with True step a show ?thesis by simp
    next
      case (Suc k)
      have "\<exists>j\<le>i. connectDB env (fst ((a # cs) ! j)) = Inr ()"
        using True a by (intro exI[of _ 0]) simp
      moreover have "\<not> (\<forall>j<i. connectDB env (fst ((a # cs) ! j)) \<noteq> Inr ())"
        using True Suc a by (auto intro: exI[of _ 0])
      ultimately show ?thesis
        using Suc Cons.prems(2) step a
        by (simp add: storage_accesses_connected after_access_def)
    qed
  next
    case False
    note step = getStorage_falls_back [OF Cons.prems(1) False]
    let ?g' = "g\<lparr>memoryStorageFallback := Some (w (fallback_instance g))\<rparr>"
    have after: "after_access (getStorage env c g) w = ?g'"
      by (simp add: step after_access_def)
    have g': "mongoStorage ?g' = None"
      using Cons.prems(1) by simp
    have fb: "fallback_instance ?g' = w (fallback_instance g)"
      by (simp add: fallback_instance_def)
    show ?thesis
    proof (cases i)
      case 0
      with False step a show ?thesis by simp
    next
      case (Suc k)
      then have k: "k < length cs"
        using Cons.prems(2) by simp
      have ex: "(\<exists>j\<le>i. connectDB env (fst ((a # cs) ! j)) = Inr ())
                  = (\<exists>j\<le>k. connectDB env (fst (cs ! j)) = Inr ())"
      proof
        assume "\<exists>j\<le>i. connectDB env (fst ((a # cs) ! j)) = Inr ()"
        then obtain j where j: "j \<le> i" "connectDB env (fst ((a # cs) ! j)) = Inr ()"
          by blast
        with False a obtain j' where "j = Suc j'"
          by (cases j) auto
        with j Suc show "\<exists>j\<le>k. connectDB env (fst (cs ! j)) = Inr ()"
          by auto
      next
        assume "\<exists>j\<le>k. connectDB env (fst (cs ! j)) = Inr ()"
        then obtain j where "j \<le> k" "connectDB env (fst (cs ! j)) = Inr ()"
          by blast
        then show "\<exists>j\<le>i. connectDB env (fst ((a # cs) ! j)) = Inr ()"
          using Suc by (intro exI[of _ "Suc j"]) simp
      qed
      have all: "(\<forall>j<i. connectDB env (fst ((a # cs) ! j)) \<noteq> Inr ())
                   = (\<forall>j<k. connectDB env (fst (cs ! j)) \<noteq> Inr ())"
        using False Suc a by (auto simp: less_Suc_eq_0_disj)
      have written: "fold snd (take i (a # cs)) (fallback_instance g)
                   = fold snd (take k cs) (w (fallback_instance g))"
        using Suc a by simp
      have "storage_accesses env g (a # cs) ! i = storage_accesses env ?g' cs ! k"
        using after Suc a by (simp add: Let_def)
      also have "\<dots> =
          (if \<exists>j\<le>k. connectDB env (fst (cs ! j)) = Inr () then Mongo MongoStorage
           else Mem (fold snd (take k cs) (w (fallback_instance g))),
           \<forall>j<k. connectDB env (fst (cs ! j)) \<noteq> Inr ())"
        using Cons.IH [OF g' k] by (simp only: fb)
      finally show ?thesis
        by (simp only: ex all written)
    qed
  qed
qed

text \<open>
  C3, as the code has it. Selection is sticky for the primary backend only. In a process
  that starts without a primary connection, the storage access at position \<open>i\<close> attempts
  the connection exactly when no earlier access connected: every access made while the
  fallback is in use retries the primary. The access returns the primary backend from the
  first successful attempt on, and until then the one in-memory instance, holding what
  the earlier accesses wrote to it.
\<close>

theorem primary_retried_until_connected:
  assumes "mongoStorage g = None" and "i < length cs"
  shows "snd (storage_accesses env g cs ! i) = (\<forall>j<i. connectDB env (fst (cs ! j)) \<noteq> Inr ())
       \<and> fst (storage_accesses env g cs ! i) =
           (if \<exists>j\<le>i. connectDB env (fst (cs ! j)) = Inr () then Mongo MongoStorage
            else Mem (fold snd (take i cs) (fallback_instance g)))"
  using storage_accesses_nth [OF assms] by simp

theorem primary_retried_until_connected_witness:
  "mongoStorage initial_Globals = None
   \<and> 3 < length [(False, add_note), (False, no_write), (True, no_write), (False, no_write)]
   \<and> storage_accesses demo_env initial_Globals
        [(False, add_note), (False, no_write), (True, no_write), (False, no_write)] ! 1
       = (Mem (add_note new_MemStorage), True)
   \<and> storage_accesses demo_env initial_Globals
        [(False, add_note), (False, no_write), (True, no_write), (False, no_write)] ! 3
       = (Mongo MongoStorage, False)"
  using primary_retried_until_connected
    [of initial_Globals 3 "[(False, add_note), (False, no_write), (True, no_write), (False, no_write)]" demo_env]
  by (simp add: initial_Globals_def demo_env_def getStorage_def initializeStorage_def connectDB_def
        falsy_def Let_def after_access_def no_write_def)

text \<open>
  C3 as stated fails. The first access cannot connect and gets the fallback, to which it
  writes a note; the second access attempts the connection again. When that attempt
  fails it gets the same in-memory instance; when it succeeds it is handed the primary
  backend.
\<close>

theorem fallback_not_sticky_counterexample:
  "storage_accesses demo_env initial_Globals [(False, add_note), (False, no_write)]
     = [(Mem new_MemStorage, True), (Mem (add_note new_MemStorage), True)]
   \<and> storage_accesses demo_env initial_Globals [(False, add_note), (True, no_write)]
     = [(Mem new_MemStorage, True), (Mongo MongoStorage, True)]"
  by (simp add: initial_Globals_def demo_env_def getStorage_def initializeStorage_def connectDB_def
        falsy_def Let_def after_access_def no_write_def)

section \<open>Properties of the slug derivation\<close>

lemma replace_other_chars_filter:
  "replace_other_chars s = filter (\<lambda>c. is_a_z c \<or> is_0_9 c \<or> is_space c) s"
  by (induction s) auto

lemma hyphen_per_run_after_space:
  "hyphen_per_run True s = hyphen_per_run False (dropWhile is_space s)"
  by (induction s) auto

lemma replace_space_runs_hyphen:
  "replace_space_runs s = hyphen_per_run False s"
proof (induction s rule: replace_space_runs.induct)
  case 1
  show ?case by simp
next
  case (2 c cs)
  show ?case
  proof (cases "is_space c")
    case True
    with 2 show ?thesis by (simp add: hyphen_per_run_after_space)
  next
    case False
    with 2 show ?thesis by simp
  qed
qed

lemma deriveSlug_slug_spec: "deriveSlug name = slug_spec name"
  by (simp add: deriveSlug_def slug_spec_def substring_def toLowerCase_def
      replace_other_chars_filter replace_space_runs_hyphen)

lemma deriveSlug_acme: "deriveSlug ''Acme Corp!'' = ''acme-corp''"
  by code_simp

lemma signup_created:
  "signup deps env st body tid tnow uid unow = (Response 201 (Auth a), st') \<Longrightarrow>
   signupSchema_parse (is_email deps) body = Some req \<Longrightarrow>
     ti_slug (aru_tenant (ar_user a)) = deriveSlug (sr_organizationName req)
     \<and> map_option tenant_slug (getTenant st' tid) = Some (deriveSlug (sr_organizationName req))"
  by (auto simp: signup_def signup_try_def catch_500_def Let_def createTenant_def createUser_def
        auth_response_def tenant_info_def getTenant_def Map_get_set_same
        split: option.splits if_splits)

text \<open>
  C7. For every organisation name the slug the signup handler derives is the one the
  specification describes: the name in lower case, without the characters that are not a
  lowercase letter (a to z), a digit or whitespace, with a single hyphen for each maximal
  run of whitespace, cut to at most 50 characters. The name \<^verbatim>\<open>Acme Corp!\<close> gives
  \<^verbatim>\<open>acme-corp\<close>, and a signup that succeeds stores and reports the tenant under that slug.
\<close>

theorem signup_slug_derivation:
  "(\<forall>name. deriveSlug name = slug_spec name)
   \<and> deriveSlug ''Acme Corp!'' = ''acme-corp''
   \<and> (signupSchema_parse (is_email deps) body = Some req
        \<and> signup deps env st body tid tnow uid unow = (Response 201 (Auth a), st')
      \<longrightarrow> ti_slug (aru_tenant (ar_user a)) = slug_spec (sr_organizationName req)
        \<and> map_option tenant_slug (getTenant st' tid) = Some (slug_spec (sr_organizationName req)))"
  using signup_created [of deps env st body tid tnow uid unow a st' req]
  by (simp add: deriveSlug_slug_spec [symmetric] deriveSlug_acme)

theorem signup_slug_derivation_witness:
  "signupSchema_parse (is_email demo_deps) (signup_body ''ann@acme.test'' ''secret1'' ''Acme Corp!'')
     = Some \<lparr>sr_email = ''ann@acme.test'', sr_password = ''secret1'',
             sr_organizationName = ''Acme Corp!''\<rparr>
   \<and> fst (signup demo_deps demo_env new_MemStorage
         (signup_body ''ann@acme.test'' ''secret1'' ''Acme Corp!'') ''t1'' 10 ''u1'' 11)
     = Response 201 (Auth \<lparr>ar_token = ''signed:u1'',
          ar_user = \<lparr>aru_id = ''u1'', aru_email = ''ann@acme.test'', aru_role = Admin,
            aru_tenant = \<lparr>ti_id = ''t1'', ti_name = ''Acme Corp!'', ti_slug = ''acme-corp'',
                           ti_plan = Free\<rparr>\<rparr>\<rparr>)
   \<and> slug_spec ''Acme Corp!'' = ''acme-corp''
   \<and> map_option tenant_slug
         (getTenant (snd (signup demo_deps demo_env new_MemStorage
            (signup_body ''ann@acme.test'' ''secret1'' ''Acme Corp!'') ''t1'' 10 ''u1'' 11)) ''t1'')
     = Some ''acme-corp''"
proof -
  let ?body = "signup_body ''ann@acme.test'' ''secret1'' ''Acme Corp!''"
  let ?req = "\<lparr>sr_email = ''ann@acme.test'', sr_password = ''secret1'',
                sr_organizationName = ''Acme Corp!''\<rparr>"
  let ?a = "\<lparr>ar_token = ''signed:u1'',
          ar_user = \<lparr>aru_id = ''u1'', aru_email = ''ann@acme.test'', aru_role = Admin,
            aru_tenant = \<lparr>ti_id = ''t1'', ti_name = ''Acme Corp!'', ti_slug = ''acme-corp'',
                           ti_plan = Free\<rparr>\<rparr>\<rparr>"
  let ?run = "signup demo_deps demo_env new_MemStorage ?body ''t1'' 10 ''u1'' 11"
  have parse: "signupSchema_parse (is_email demo_deps) ?body = Some ?req"
    by (simp add: signup_body_def signupSchema_parse_def z_string_min_def z_string_email_def
          demo_deps_def)
  have slug: "deriveSlug ''Acme Corp!'' = ''acme-corp''"
    by code_simp
  have run: "fst ?run = Response 201 (Auth ?a)"
    by (simp add: signup_def signup_try_def catch_500_def Let_def createTenant_def
          createUser_def auth_response_def tenant_info_def getTenantBySlug_def getUserByEmail_def
          Map_values_def signup_body_def signupSchema_parse_def z_string_min_def
          z_string_email_def demo_deps_def demo_env_def new_MemStorage_def slug)
  then have "?run = (Response 201 (Auth ?a), snd ?run)"
    by (simp add: prod_eq_iff)
  with parse signup_slug_derivation [of demo_deps ?body ?req demo_env new_MemStorage
      "''t1''" 10 "''u1''" 11 ?a "snd ?run"]
  show ?thesis
    using run by simp
qed

section \<open>Properties of the routes\<close>

lemma Map_get_set_other: "k' \<noteq> k \<Longrightarrow> Map_get (Map_set es k v) k' = Map_get es k'"
  by (induction es) auto

lemma updateTenantPlan_frame:
  "updateTenantPlan st ident p now = (r, st') \<Longrightarrow> i \<noteq> ident \<Longrightarrow> getTenant st' i = getTenant st i"
  by (auto simp: updateTenantPlan_def getTenant_def Map_get_set_other Let_def split: option.splits)

text \<open>
  C8. An upgrade request of an authenticated caller on \<^verbatim>\<open>/api/tenants/:slug/upgrade\<close>: if
  the caller is not an Admin, or the slug of the caller's own tenant differs from the slug
  in the path, the answer is 403 and the storage is left as it was, also for an Admin of
  another tenant. When both conditions hold, the route does what \<open>updateTenantPlan\<close>
  does on the caller's own tenant id, and no other tenant's record changes.
\<close>

theorem upgrade_own_tenant_as_admin_only:
  "(au_role user \<noteq> Admin \<or> ti_slug (au_tenant user) \<noteq> slug \<longrightarrow>
      status (fst (post_upgrade (Some user) st slug now)) = 403
      \<and> snd (post_upgrade (Some user) st slug now) = st)
   \<and> (au_role user = Admin \<and> ti_slug (au_tenant user) = slug \<longrightarrow>
      post_upgrade (Some user) st slug now =
        (case updateTenantPlan st (au_tenantId user) Pro now of
           (None, st') \<Rightarrow> (Response 404 (Message ''Tenant not found''), st')
         | (Some updatedTenant, st') \<Rightarrow>
             (Response 200 (Upgraded ''Tenant upgraded to Pro plan successfully'' updatedTenant), st'))
      \<and> (\<forall>other. other \<noteq> au_tenantId user \<longrightarrow>
            getTenant (snd (post_upgrade (Some user) st slug now)) other = getTenant st other))"
  by (auto simp: post_upgrade_def requireAdmin_def upgrade_handler_def
        split: prod.splits option.splits dest: updateTenantPlan_frame)

theorem upgrade_own_tenant_as_admin_only_witness:
  "au_role acme_admin = Admin \<and> ti_slug (au_tenant acme_admin) \<noteq> ''globex''
   \<and> status (fst (post_upgrade (Some acme_admin) demo_storage ''globex'' 3000)) = 403
   \<and> snd (post_upgrade (Some acme_admin) demo_storage ''globex'' 3000) = demo_storage
   \<and> ti_slug (au_tenant acme_admin) = ''acme''
   \<and> status (fst (post_upgrade (Some acme_admin) demo_storage ''acme'' 3000)) = 200
   \<and> map_option tenant_plan
        (getTenant (snd (post_upgrade (Some acme_admin) demo_storage ''acme'' 3000)) ''t-acme'')
       = Some Pro
   \<and> getTenant (snd (post_upgrade (Some acme_admin) demo_storage ''acme'' 3000)) ''t-globex''
       = getTenant demo_storage ''t-globex''"
proof -
  have admin: "au_role acme_admin = Admin"
    and other_slug: "ti_slug (au_tenant acme_admin) \<noteq> ''globex''"
    and own_slug: "ti_slug (au_tenant acme_admin) = ''acme''"
    and own_id: "au_tenantId acme_admin = ''t-acme''"
    by (simp_all add: acme_admin_def)
  have refused: "status (fst (post_upgrade (Some acme_admin) demo_storage ''globex'' 3000)) = 403
      \<and> snd (post_upgrade (Some acme_admin) demo_storage ''globex'' 3000) = demo_storage"
    using upgrade_own_tenant_as_admin_only [of acme_admin "''globex''" demo_storage 3000] other_slug
    by blast
  have upd: "updateTenantPlan demo_storage ''t-acme'' Pro 3000 =
      (Some ((demo_tenant ''t-acme'' ''Acme Corporation'' ''acme'')
               \<lparr>tenant_plan := Pro, tenant_updatedAt := Some 3000\<rparr>),
       demo_storage\<lparr>mem_tenants :=
         [(''t-acme'', (demo_tenant ''t-acme'' ''Acme Corporation'' ''acme'')
               \<lparr>tenant_plan := Pro, tenant_updatedAt := Some 3000\<rparr>),
          (''t-globex'', demo_tenant ''t-globex'' ''Globex Corporation'' ''globex'')]\<rparr>)"
    by (simp add: updateTenantPlan_def demo_storage_def Let_def)
  have granted: "post_upgrade (Some acme_admin) demo_storage ''acme'' 3000 =
        (case updateTenantPlan demo_storage ''t-acme'' Pro 3000 of
           (None, st') \<Rightarrow> (Response 404 (Message ''Tenant not found''), st')
         | (Some updatedTenant, st') \<Rightarrow>
             (Response 200 (Upgraded ''Tenant upgraded to Pro plan successfully'' updatedTenant), st'))"
    and frame: "getTenant (snd (post_upgrade (Some acme_admin) demo_storage ''acme'' 3000)) ''t-globex''
        = getTenant demo_storage ''t-globex''"
    using upgrade_own_tenant_as_admin_only [of acme_admin "''acme''" demo_storage 3000]
      admin own_slug own_id by auto
  show ?thesis
    using admin other_slug own_slug refused frame
    by (simp add: granted upd getTenant_def)
qed




text \<open>
  C6, as the code has it. A body that fails its schema makes \<^verbatim>\<open>parse\<close> throw inside the
  handler's \<^verbatim>\<open>try\<close>, and the \<^verbatim>\<open>catch\<close> answers 500 \<^verbatim>\<open>Internal server error\<close>: so do signup
  (a password shorter than 6 characters is such a body) and create-note (a missing title
  is one), and the storage is left as it was. Signup answers 400 only to a body that
  passes the schema, when the e-mail is registered or the slug is taken.
\<close>

theorem invalid_body_answered_500:
  "(signupSchema_parse (is_email deps) body = None \<longrightarrow>
      signup deps env st body tid tnow uid unow
        = (Response 500 (Message ''Internal server error''), st))
   \<and> (insertNoteSchema_parse body = None \<longrightarrow>
      post_note fx user storage db body
        = (Response 500 (Message ''Internal server error''), storage, db))
   \<and> (property es ''password'' = Some (JStr password) \<and> length password < 6 \<longrightarrow>
      signupSchema_parse (is_email deps) (Some (JObj es)) = None)
   \<and> (property es ''title'' = None \<longrightarrow> insertNoteSchema_parse (Some (JObj es)) = None)
   \<and> (status (fst (signup deps env st body tid tnow uid unow)) = 400 \<longrightarrow>
      (\<exists>req. signupSchema_parse (is_email deps) body = Some req
         \<and> (getUserByEmail st (sr_email req) \<noteq> None
            \<or> getTenantBySlug st (deriveSlug (sr_organizationName req)) \<noteq> None)))"
  by (auto simp: signup_def signup_try_def post_note_def post_note_try_def catch_500_def
        signupSchema_parse_def insertNoteSchema_parse_def z_string_min_def Let_def
        createTenant_def createUser_def
        split: option.splits if_splits prod.splits)

theorem invalid_body_answered_500_witness:
  "signupSchema_parse (is_email demo_deps) (signup_body ''bob@initech.test'' ''12345'' ''Initech'') = None
   \<and> signup demo_deps demo_env demo_storage (signup_body ''bob@initech.test'' ''12345'' ''Initech'')
        ''t9'' 10 ''u9'' 11 = (Response 500 (Message ''Internal server error''), demo_storage)
   \<and> insertNoteSchema_parse (Some (JObj [(''body'', JStr ''Only a body'')])) = None
   \<and> post_note demo_effects globex_admin (Mem demo_storage) demo_database
        (Some (JObj [(''body'', JStr ''Only a body'')]))
        = (Response 500 (Message ''Internal server error''), Mem demo_storage, demo_database)
   \<and> status (fst (signup demo_deps demo_env demo_storage
        (signup_body ''admin@acme.test'' ''secret1'' ''Initech'') ''t9'' 10 ''u9'' 11)) = 400
   \<and> getUserByEmail demo_storage ''admin@acme.test'' \<noteq> None"
proof -
  let ?short = "signup_body ''bob@initech.test'' ''12345'' ''Initech''"
  let ?es = "[(''email'', JStr ''bob@initech.test''), (''password'', JStr ''12345''),
              (''organizationName'', JStr ''Initech'')]"
  let ?untitled = "[(''body'', JStr ''Only a body'')]"
  have short: "?short = Some (JObj ?es)"
    by (simp add: signup_body_def)
  have "property ?es ''password'' = Some (JStr ''12345'') \<and> length ''12345'' < 6"
    by simp
  then have p1: "signupSchema_parse (is_email demo_deps) ?short = None"
    using invalid_body_answered_500 [of demo_deps _ _ _ _ _ _ _ _ _ _ _ ?es "''12345''"]
    unfolding short by blast
  then have r1: "signup demo_deps demo_env demo_storage ?short ''t9'' 10 ''u9'' 11
        = (Response 500 (Message ''Internal server error''), demo_storage)"
    using invalid_body_answered_500 [of demo_deps ?short demo_env demo_storage "''t9''" 10 "''u9''" 11]
    by blast
  have "property ?untitled ''title'' = None"
    by simp
  then have p2: "insertNoteSchema_parse (Some (JObj ?untitled)) = None"
    using invalid_body_answered_500 [of _ _ _ _ _ _ _ _ _ _ _ _ ?untitled] by blast
  then have r2: "post_note demo_effects globex_admin (Mem demo_storage) demo_database
        (Some (JObj ?untitled))
        = (Response 500 (Message ''Internal server error''), Mem demo_storage, demo_database)"
    using invalid_body_answered_500 [of _ "Some (JObj ?untitled)" _ _ _ _ _ _ demo_effects globex_admin
        "Mem demo_storage" demo_database]
    by blast
  have dup: "getUserByEmail demo_storage ''admin@acme.test'' = Some demo_user"
    by (simp add: getUserByEmail_def demo_storage_def demo_user_def Map_values_def)
  have r3: "status (fst (signup demo_deps demo_env demo_storage
        (signup_body ''admin@acme.test'' ''secret1'' ''Initech'') ''t9'' 10 ''u9'' 11)) = 400"
    by (simp add: signup_def signup_try_def signup_body_def signupSchema_parse_def
          z_string_min_def z_string_email_def demo_deps_def dup catch_500_def)
  show ?thesis
    using p1 r1 p2 r2 r3 dup by simp
qed

text \<open>
  C6 as stated fails: a signup with a five-character password and a create-note request
  without a title are both answered 500, not 400.
\<close>

theorem validation_status_counterexample:
  "signup demo_deps demo_env demo_storage (signup_body ''bob@initech.test'' ''12345'' ''Initech'')
        ''t9'' 10 ''u9'' 11 = (Response 500 (Message ''Internal server error''), demo_storage)
   \<and> post_note demo_effects globex_admin (Mem demo_storage) demo_database
        (Some (JObj [(''body'', JStr ''Only a body'')]))
        = (Response 500 (Message ''Internal server error''), Mem demo_storage, demo_database)"
  by (simp add: signup_def signup_try_def signup_body_def signupSchema_parse_def
        z_string_min_def z_string_email_def demo_deps_def catch_500_def
        post_note_def post_note_try_def insertNoteSchema_parse_def)

text \<open>
  C4, as the code has it. The handlers read the signing secret where they use it, at each
  request. With the secret absent (unset or empty), issuing a token fails at every request
  that reaches it, and for that request alone: login and signup never answer with a
  token, and a request that passes every check before the signing is answered 500
  \<^verbatim>\<open>Internal server error\<close>. The checks before the signing answer as they do with a secret:
  login 401 for an unknown e-mail, a wrong password or a missing tenant, signup 400 for a
  registered e-mail or a taken slug. A signup answered 500 for the missing secret has by
  then stored the tenant and its first user, as a successful one would.
\<close>

theorem absent_secret_fails_each_issuance:
  assumes "falsy (JWT_SECRET env)"
  shows "(\<forall>a. payload (login deps env st body) \<noteq> Auth a)
       \<and> (loginSchema_parse (is_email deps) body = Some req
            \<and> getUserByEmail st (lr_email req) = Some user
            \<and> bcrypt_compare deps (lr_password req) (user_passwordHash user)
            \<and> getTenant st (user_tenantId user) = Some tenant
          \<longrightarrow> login deps env st body = Response 500 (Message ''Internal server error''))
       \<and> (loginSchema_parse (is_email deps) body = Some req
            \<and> getUserByEmail st (lr_email req) = None
          \<longrightarrow> login deps env st body = Response 401 (Message ''Invalid credentials''))
       \<and> (loginSchema_parse (is_email deps) body = Some req
            \<and> getUserByEmail st (lr_email req) = Some user
            \<and> \<not> bcrypt_compare deps (lr_password req) (user_passwordHash user)
          \<longrightarrow> login deps env st body = Response 401 (Message ''Invalid credentials''))
       \<and> (loginSchema_parse (is_email deps) body = Some req
            \<and> getUserByEmail st (lr_email req) = Some user
            \<and> bcrypt_compare deps (lr_password req) (user_passwordHash user)
            \<and> getTenant st (user_tenantId user) = None
          \<longrightarrow> login deps env st body = Response 401 (Message ''Tenant not found''))
       \<and> (\<forall>a. payload (fst (signup deps env st sbody tid tnow uid unow)) \<noteq> Auth a)
       \<and> (signupSchema_parse (is_email deps) sbody = Some sreq
            \<and> getUserByEmail st (sr_email sreq) = None
            \<and> getTenantBySlug st (deriveSlug (sr_organizationName sreq)) = None
          \<longrightarrow> signup deps env st sbody tid tnow uid unow
                = (Response 500 (Message ''Internal server error''),
                   snd (createUser
                          (snd (createTenant st
                                  \<lparr>it_name = sr_organizationName sreq,
                                   it_slug = deriveSlug (sr_organizationName sreq),
                                   it_plan = Free\<rparr> tid tnow))
                          \<lparr>iu_email = sr_email sreq,
                           iu_passwordHash = bcrypt_hash deps (sr_password sreq),
                           iu_role = Admin, iu_tenantId = tid\<rparr> uid unow)))
       \<and> (signupSchema_parse (is_email deps) sbody = Some sreq
            \<and> getUserByEmail st (sr_email sreq) = Some existingUser
          \<longrightarrow> signup deps env st sbody tid tnow uid unow
                = (Response 400 (Message ''Email already registered''), st))
       \<and> (signupSchema_parse (is_email deps) sbody = Some sreq
            \<and> getUserByEmail st (sr_email sreq) = None
            \<and> getTenantBySlug st (deriveSlug (sr_organizationName sreq)) = Some existingTenant
          \<longrightarrow> signup deps env st sbody tid tnow uid unow
                = (Response 400 (Message ''Organization name already taken''), st))
       \<and> (\<not> falsy (JWT_SECRET env') \<longrightarrow>
            login deps env st body
              = (if status (login deps env' st body) = 200
                 then Response 500 (Message ''Internal server error'')
                 else login deps env' st body)
            \<and> fst (signup deps env st sbody tid tnow uid unow)
              = (if status (fst (signup deps env' st sbody tid tnow uid unow)) = 201
                 then Response 500 (Message ''Internal server error'')
                 else fst (signup deps env' st sbody tid tnow uid unow))
            \<and> snd (signup deps env st sbody tid tnow uid unow)
              = snd (signup deps env' st sbody tid tnow uid unow))"
proof -
  have secret: "JWT_SECRET env = None \<or> JWT_SECRET env = Some []"
    using assms by (simp add: falsy_def split: option.splits)
  have l1: "\<forall>a. payload (login deps env st body) \<noteq> Auth a"
    using secret
    by (auto simp: login_def login_try_def catch_500_def split: option.splits if_splits)
  have l2: "loginSchema_parse (is_email deps) body = Some req
            \<and> getUserByEmail st (lr_email req) = Some user
            \<and> bcrypt_compare deps (lr_password req) (user_passwordHash user)
            \<and> getTenant st (user_tenantId user) = Some tenant
          \<longrightarrow> login deps env st body = Response 500 (Message ''Internal server error'')"
    using secret by (auto simp: login_def login_try_def catch_500_def)
  have l3: "loginSchema_parse (is_email deps) body = Some req
            \<and> getUserByEmail st (lr_email req) = None
          \<longrightarrow> login deps env st body = Response 401 (Message ''Invalid credentials'')"
    by (simp add: login_def login_try_def catch_500_def)
  have l4: "loginSchema_parse (is_email deps) body = Some req
            \<and> getUserByEmail st (lr_email req) = Some user
            \<and> \<not> bcrypt_compare deps (lr_password req) (user_passwordHash user)
          \<longrightarrow> login deps env st body = Response 401 (Message ''Invalid credentials'')"
    by (simp add: login_def login_try_def catch_500_def)
  have l5: "loginSchema_parse (is_email deps) body = Some req
            \<and> getUserByEmail st (lr_email req) = Some user
            \<and> bcrypt_compare deps (lr_password req) (user_passwordHash user)
            \<and> getTenant st (user_tenantId user) = None
          \<longrightarrow> login deps env st body = Response 401 (Message ''Tenant not found'')"
    by (simp add: login_def login_try_def catch_500_def)
  have s1: "\<forall>a. payload (fst (signup deps env st sbody tid tnow uid unow)) \<noteq> Auth a"
    using secret
    by (auto simp: signup_def signup_try_def catch_500_def Let_def createTenant_def createUser_def
          split: option.splits if_splits)
  have s2: "signupSchema_parse (is_email deps) sbody = Some sreq
            \<and> getUserByEmail st (sr_email sreq) = None
            \<and> getTenantBySlug st (deriveSlug (sr_organizationName sreq)) = None
          \<longrightarrow> signup deps env st sbody tid tnow uid unow
                = (Response 500 (Message ''Internal server error''),
                   snd (createUser
                          (snd (createTenant st
                                  \<lparr>it_name = sr_organizationName sreq,
                                   it_slug = deriveSlug (sr_organizationName sreq),
                                   it_plan = Free\<rparr> tid tnow))
                          \<lparr>iu_email = sr_email sreq,
                           iu_passwordHash = bcrypt_hash deps (sr_password sreq),
                           iu_role = Admin, iu_tenantId = tid\<rparr> uid unow))"
    using secret
    by (auto simp: signup_def signup_try_def catch_500_def Let_def createTenant_def createUser_def)
  have s3: "signupSchema_parse (is_email deps) sbody = Some sreq
            \<and> getUserByEmail st (sr_email sreq) = Some existingUser
          \<longrightarrow> signup deps env st sbody tid tnow uid unow
                = (Response 400 (Message ''Email already registered''), st)"
    by (simp add: signup_def signup_try_def catch_500_def)
  have s4: "signupSchema_parse (is_email deps) sbody = Some sreq
            \<and> getUserByEmail st (sr_email sreq) = None
            \<and> getTenantBySlug st (deriveSlug (sr_organizationName sreq)) = Some existingTenant
          \<longrightarrow> signup deps env st sbody tid tnow uid unow
                = (Response 400 (Message ''Organization name already taken''), st)"
    by (simp add: signup_def signup_try_def catch_500_def)
  have cmp: "\<not> falsy (JWT_SECRET env') \<longrightarrow>
            login deps env st body
              = (if status (login deps env' st body) = 200
                 then Response 500 (Message ''Internal server error'')
                 else login deps env' st body)
            \<and> fst (signup deps env st sbody tid tnow uid unow)
              = (if status (fst (signup deps env' st sbody tid tnow uid unow)) = 201
                 then Response 500 (Message ''Internal server error'')
                 else fst (signup deps env' st sbody tid tnow uid unow))
            \<and> snd (signup deps env st sbody tid tnow uid unow)
              = snd (signup deps env' st sbody tid tnow uid unow)"
    using secret
    by (auto simp: falsy_def login_def login_try_def signup_def signup_try_def catch_500_def
          Let_def createTenant_def createUser_def split: option.splits if_splits)
  from l1 l2 l3 l4 l5 s1 s2 s3 s4 cmp show ?thesis
    by blast
qed

theorem absent_secret_fails_each_issuance_witness:
  "falsy (JWT_SECRET env_without_secret)
   \<and> \<not> falsy (JWT_SECRET demo_env)
   \<and> loginSchema_parse (is_email demo_deps) (login_body ''admin@acme.test'' ''password'')
        = Some \<lparr>lr_email = ''admin@acme.test'', lr_password = ''password''\<rparr>
   \<and> getUserByEmail demo_storage ''admin@acme.test'' = Some demo_user
   \<and> bcrypt_compare demo_deps ''password'' (user_passwordHash demo_user)
   \<and> getTenant demo_storage (user_tenantId demo_user)
        = Some (demo_tenant ''t-acme'' ''Acme Corporation'' ''acme'')
   \<and> login demo_deps env_without_secret demo_storage (login_body ''admin@acme.test'' ''password'')
        = Response 500 (Message ''Internal server error'')
   \<and> status (login demo_deps demo_env demo_storage (login_body ''admin@acme.test'' ''password''))
        = 200
   \<and> loginSchema_parse (is_email demo_deps) (login_body ''admin@acme.test'' ''guess'')
        = Some \<lparr>lr_email = ''admin@acme.test'', lr_password = ''guess''\<rparr>
   \<and> \<not> bcrypt_compare demo_deps ''guess'' (user_passwordHash demo_user)
   \<and> login demo_deps env_without_secret demo_storage (login_body ''admin@acme.test'' ''guess'')
        = Response 401 (Message ''Invalid credentials'')
   \<and> signupSchema_parse (is_email demo_deps) (signup_body ''bob@initech.test'' ''secret1'' ''Initech'')
        = Some \<lparr>sr_email = ''bob@initech.test'', sr_password = ''secret1'',
                sr_organizationName = ''Initech''\<rparr>
   \<and> getUserByEmail demo_storage ''bob@initech.test'' = None
   \<and> getTenantBySlug demo_storage (deriveSlug ''Initech'') = None
   \<and> fst (signup demo_deps env_without_secret demo_storage
            (signup_body ''bob@initech.test'' ''secret1'' ''Initech'') ''t9'' 10 ''u9'' 11)
        = Response 500 (Message ''Internal server error'')
   \<and> map_option tenant_slug (getTenant (snd (signup demo_deps env_without_secret demo_storage
            (signup_body ''bob@initech.test'' ''secret1'' ''Initech'') ''t9'' 10 ''u9'' 11)) ''t9'')
        = Some ''initech''
   \<and> map_option user_email (getUser (snd (signup demo_deps env_without_secret demo_storage
            (signup_body ''bob@initech.test'' ''secret1'' ''Initech'') ''t9'' 10 ''u9'' 11)) ''u9'')
        = Some ''bob@initech.test''
   \<and> signupSchema_parse (is_email demo_deps) (signup_body ''admin@acme.test'' ''secret1'' ''Initech'')
        = Some \<lparr>sr_email = ''admin@acme.test'', sr_password = ''secret1'',
                sr_organizationName = ''Initech''\<rparr>
   \<and> signup demo_deps env_without_secret demo_storage
            (signup_body ''admin@acme.test'' ''secret1'' ''Initech'') ''t9'' 10 ''u9'' 11
        = (Response 400 (Message ''Email already registered''), demo_storage)"
proof -
  let ?lbody = "login_body ''admin@acme.test'' ''password''"
  let ?lreq = "\<lparr>lr_email = ''admin@acme.test'', lr_password = ''password''\<rparr>"
  let ?gbody = "login_body ''admin@acme.test'' ''guess''"
  let ?greq = "\<lparr>lr_email = ''admin@acme.test'', lr_password = ''guess''\<rparr>"
  let ?sbody = "signup_body ''bob@initech.test'' ''secret1'' ''Initech''"
  let ?sreq = "\<lparr>sr_email = ''bob@initech.test'', sr_password = ''secret1'',
                sr_organizationName = ''Initech''\<rparr>"
  let ?dbody = "signup_body ''admin@acme.test'' ''secret1'' ''Initech''"
  let ?dreq = "\<lparr>sr_email = ''admin@acme.test'', sr_password = ''secret1'',
                sr_organizationName = ''Initech''\<rparr>"
  let ?acme = "demo_tenant ''t-acme'' ''Acme Corporation'' ''acme''"
  have absent: "falsy (JWT_SECRET env_without_secret)"
    and present: "\<not> falsy (JWT_SECRET demo_env)"
    by (simp_all add: falsy_def env_without_secret_def demo_env_def)
  have lparse: "loginSchema_parse (is_email demo_deps) ?lbody = Some ?lreq"
    and gparse: "loginSchema_parse (is_email demo_deps) ?gbody = Some ?greq"
    by (simp_all add: login_body_def loginSchema_parse_def z_string_min_def z_string_email_def
          demo_deps_def)
  have found: "getUserByEmail demo_storage ''admin@acme.test'' = Some demo_user"
    and fresh: "getUserByEmail demo_storage ''bob@initech.test'' = None"
    by (simp_all add: getUserByEmail_def demo_storage_def demo_user_def Map_values_def)
  have pw: "bcrypt_compare demo_deps ''password'' (user_passwordHash demo_user)"
    and wrong: "\<not> bcrypt_compare demo_deps ''guess'' (user_passwordHash demo_user)"
    by (simp_all add: demo_deps_def demo_user_def)
  have tenant: "getTenant demo_storage (user_tenantId demo_user) = Some ?acme"
    by (simp add: getTenant_def demo_storage_def demo_user_def)
  have sparse: "signupSchema_parse (is_email demo_deps) ?sbody = Some ?sreq"
    and dparse: "signupSchema_parse (is_email demo_deps) ?dbody = Some ?dreq"
    by (simp_all add: signup_body_def signupSchema_parse_def z_string_min_def z_string_email_def
          demo_deps_def)
  have slug: "deriveSlug ''Initech'' = ''initech''"
    by code_simp
  have free: "getTenantBySlug demo_storage (deriveSlug ''Initech'') = None"
    by (simp add: slug getTenantBySlug_def demo_storage_def demo_tenant_def Map_values_def)
  note right = absent_secret_fails_each_issuance [OF absent,
      of demo_deps demo_storage ?lbody ?lreq demo_user ?acme ?sbody "''t9''" 10 "''u9''" 11 ?sreq
         demo_user ?acme demo_env]
  note guess = absent_secret_fails_each_issuance [OF absent,
      of demo_deps demo_storage ?gbody ?greq demo_user ?acme ?dbody "''t9''" 10 "''u9''" 11 ?dreq
         demo_user ?acme demo_env]
  have l500: "login demo_deps env_without_secret demo_storage ?lbody
        = Response 500 (Message ''Internal server error'')"
    using right lparse found pw tenant by simp
  have l200: "status (login demo_deps demo_env demo_storage ?lbody) = 200"
  proof (rule ccontr)
    assume "status (login demo_deps demo_env demo_storage ?lbody) \<noteq> 200"
    with right present have "login demo_deps env_without_secret demo_storage ?lbody
        = login demo_deps demo_env demo_storage ?lbody"
      by simp
    with l500 have "status (login demo_deps demo_env demo_storage ?lbody) = 500"
      by simp
    moreover have "status (login demo_deps demo_env demo_storage ?lbody) \<noteq> 500"
      by (simp add: login_def login_try_def lparse found pw tenant demo_env_def catch_500_def)
    ultimately show False by simp
  qed
  have l401: "login demo_deps env_without_secret demo_storage ?gbody
        = Response 401 (Message ''Invalid credentials'')"
    using guess gparse found wrong by simp
  have s500: "signup demo_deps env_without_secret demo_storage ?sbody ''t9'' 10 ''u9'' 11
        = (Response 500 (Message ''Internal server error''),
           snd (createUser
                  (snd (createTenant demo_storage
                          \<lparr>it_name = ''Initech'', it_slug = deriveSlug ''Initech'', it_plan = Free\<rparr>
                          ''t9'' 10))
                  \<lparr>iu_email = ''bob@initech.test'',
                   iu_passwordHash = bcrypt_hash demo_deps ''secret1'',
                   iu_role = Admin, iu_tenantId = ''t9''\<rparr> ''u9'' 11))"
    using right sparse fresh free by simp
  have stored_tenant: "map_option tenant_slug
        (getTenant (snd (signup demo_deps env_without_secret demo_storage ?sbody ''t9'' 10 ''u9'' 11))
           ''t9'') = Some ''initech''"
    unfolding s500
    by (simp add: slug createUser_def createTenant_def Let_def getTenant_def demo_storage_def)
  have stored_user: "map_option user_email
        (getUser (snd (signup demo_deps env_without_secret demo_storage ?sbody ''t9'' 10 ''u9'' 11))
           ''u9'') = Some ''bob@initech.test''"
    unfolding s500
    by (simp add: slug createUser_def createTenant_def Let_def getUser_def demo_storage_def
          demo_deps_def)
  have s400: "signup demo_deps env_without_secret demo_storage ?dbody ''t9'' 10 ''u9'' 11
        = (Response 400 (Message ''Email already registered''), demo_storage)"
    using guess dparse found by simp
  show ?thesis
    using absent present lparse found pw tenant l500 l200 gparse wrong l401 sparse fresh free
      s500 stored_tenant stored_user dparse s400
    by simp
qed

text \<open>
  C4 as stated fails. Without the secret the process serves requests: a login with a wrong
  password is answered 401 as usual and one with the right password 500, each for that
  request alone. And \<^verbatim>\<open>authenticateToken\<close> answers a token it accepts when the secret
  is set with 401 \<^verbatim>\<open>Invalid token\<close> when the secret is absent: its \<^verbatim>\<open>catch\<close> takes the error
  thrown for the missing secret for a bad token.
\<close>

theorem absent_secret_counterexample:
  "authenticateToken demo_deps demo_env (Some ''Bearer signed:u-acme'') = Next acme_admin
   \<and> authenticateToken demo_deps env_without_secret (Some ''Bearer signed:u-acme'')
        = Reply (Response 401 (Message ''Invalid token''))
   \<and> login demo_deps env_without_secret demo_storage (login_body ''admin@acme.test'' ''password'')
        = Response 500 (Message ''Internal server error'')
   \<and> login demo_deps env_without_secret demo_storage (login_body ''admin@acme.test'' ''guess'')
        = Response 401 (Message ''Invalid credentials'')"
  by (simp add: authenticateToken_def authenticateToken_try_def bearer_token_def demo_deps_def
        demo_env_def env_without_secret_def secret_error_def
        login_def login_try_def login_body_def loginSchema_parse_def z_string_min_def
        z_string_email_def getUserByEmail_def getTenant_def demo_storage_def demo_user_def
        Map_values_def catch_500_def)

end
